theory Spec2Isabelle
  imports Complex_Main "HOL-Library.Multiset"
begin

section \<open>JavaScript numbers\<close>

text \<open>
  The plugin computes with JavaScript numbers. A finite number is modelled by the
  rational it denotes (rounding and the sign of zero are not modelled); the three
  non-finite values are kept, because the code divides by quantities that can be zero
  and compares the quotient afterwards.
\<close>

datatype jsnum = Fin rat | PosInf | NegInf | NaN

fun isNaN :: "jsnum \<Rightarrow> bool" where
  "isNaN NaN = True"
| "isNaN _ = False"

text \<open>Truthiness of a number: \<open>0\<close> and \<open>NaN\<close> are falsy.\<close>

fun js_truthy :: "jsnum \<Rightarrow> bool" where
  "js_truthy (Fin x) = (x \<noteq> 0)"
| "js_truthy NaN = False"
| "js_truthy _ = True"

fun js_neg :: "jsnum \<Rightarrow> jsnum" where
  "js_neg (Fin x) = Fin (- x)"
| "js_neg PosInf = NegInf"
| "js_neg NegInf = PosInf"
| "js_neg NaN = NaN"

fun js_add :: "jsnum \<Rightarrow> jsnum \<Rightarrow> jsnum" where
  "js_add (Fin x) (Fin y) = Fin (x + y)"
| "js_add NaN _ = NaN"
| "js_add _ NaN = NaN"
| "js_add PosInf NegInf = NaN"
| "js_add NegInf PosInf = NaN"
| "js_add PosInf _ = PosInf"
| "js_add NegInf _ = NegInf"
| "js_add _ PosInf = PosInf"
| "js_add _ NegInf = NegInf"

definition js_sub :: "jsnum \<Rightarrow> jsnum \<Rightarrow> jsnum" where
  "js_sub a b = js_add a (js_neg b)"

text \<open>Sign of a number other than \<open>NaN\<close>, used by multiplication with an infinite factor.\<close>

fun js_sign :: "jsnum \<Rightarrow> int" where
  "js_sign (Fin x) = (if x > 0 then 1 else if x < 0 then - 1 else 0)"
| "js_sign PosInf = 1"
| "js_sign NegInf = - 1"
| "js_sign NaN = 0"

fun js_mul :: "jsnum \<Rightarrow> jsnum \<Rightarrow> jsnum" where
  "js_mul (Fin x) (Fin y) = Fin (x * y)"
| "js_mul NaN _ = NaN"
| "js_mul _ NaN = NaN"
| "js_mul a b =
     (let s = js_sign a * js_sign b
      in if s = 0 then NaN else if s > 0 then PosInf else NegInf)"

fun js_div :: "jsnum \<Rightarrow> jsnum \<Rightarrow> jsnum" where
  "js_div (Fin x) (Fin y) =
     (if y \<noteq> 0 then Fin (x / y)
      else if x > 0 then PosInf else if x < 0 then NegInf else NaN)"
| "js_div NaN _ = NaN"
| "js_div _ NaN = NaN"
| "js_div (Fin x) _ = Fin 0"
| "js_div PosInf (Fin y) = (if y \<ge> 0 then PosInf else NegInf)"
| "js_div NegInf (Fin y) = (if y \<ge> 0 then NegInf else PosInf)"
| "js_div _ _ = NaN"

fun js_lt :: "jsnum \<Rightarrow> jsnum \<Rightarrow> bool" where
  "js_lt (Fin x) (Fin y) = (x < y)"
| "js_lt NaN _ = False"
| "js_lt _ NaN = False"
| "js_lt NegInf NegInf = False"
| "js_lt NegInf _ = True"
| "js_lt PosInf _ = False"
| "js_lt (Fin x) PosInf = True"
| "js_lt (Fin x) NegInf = False"

definition js_gt :: "jsnum \<Rightarrow> jsnum \<Rightarrow> bool" where
  "js_gt a b = js_lt b a"

fun js_le :: "jsnum \<Rightarrow> jsnum \<Rightarrow> bool" where
  "js_le (Fin x) (Fin y) = (x \<le> y)"
| "js_le NaN _ = False"
| "js_le _ NaN = False"
| "js_le NegInf _ = True"
| "js_le _ PosInf = True"
| "js_le PosInf _ = False"
| "js_le (Fin x) NegInf = False"

definition Math_min :: "jsnum \<Rightarrow> jsnum \<Rightarrow> jsnum" where
  "Math_min a b = (if isNaN a \<or> isNaN b then NaN else if js_lt b a then b else a)"

definition Math_max :: "jsnum \<Rightarrow> jsnum \<Rightarrow> jsnum" where
  "Math_max a b = (if isNaN a \<or> isNaN b then NaN else if js_lt a b then b else a)"

fun Math_abs :: "jsnum \<Rightarrow> jsnum" where
  "Math_abs (Fin x) = Fin \<bar>x\<bar>"
| "Math_abs NaN = NaN"
| "Math_abs _ = PosInf"

text \<open>\<open>Math.round\<close> rounds to the nearest integer, halves upwards.\<close>

fun Math_round :: "jsnum \<Rightarrow> jsnum" where
  "Math_round (Fin x) = Fin (of_int \<lfloor>x + 1 / 2\<rfloor>)"
| "Math_round a = a"

text \<open>\<open>a ?? b\<close> on a value that may be \<open>null\<close> or \<open>undefined\<close>.\<close>

definition nullish :: "'a option \<Rightarrow> 'a \<Rightarrow> 'a" where
  "nullish a b = (case a of None \<Rightarrow> b | Some v \<Rightarrow> v)"

text \<open>\<open>a || b\<close> on a number that may be missing, and on a string that may be missing.\<close>

definition num_or :: "jsnum option \<Rightarrow> jsnum \<Rightarrow> jsnum" where
  "num_or a b = (case a of None \<Rightarrow> b | Some v \<Rightarrow> if js_truthy v then v else b)"

definition str_or :: "string option \<Rightarrow> string \<Rightarrow> string" where
  "str_or a b = (case a of None \<Rightarrow> b | Some v \<Rightarrow> if v \<noteq> [] then v else b)"


section \<open>Errors\<close>

text \<open>
  A thrown value: an \<open>Error\<close> with its message, a \<open>TypeError\<close> raised by the
  runtime, or \<open>undefined\<close> (what \<open>throw lastError\<close> throws when no attempt was made).
\<close>

datatype error = Error string | TypeError string | ThrownUndefined

section \<open>Data model\<close>

text \<open>
  The records below follow the TypeScript types of \<open>types/token.ts\<close> as the providers
  use them. \<open>TokenTradeData\<close> has some two hundred numeric fields, all filled by the same
  pattern; the record keeps the ones that the functions modelled here read.
  A field that may be \<open>null\<close> or \<open>undefined\<close> is an \<open>option\<close>.
\<close>

record TokenSecurityData =
  ownerBalance :: string
  creatorBalance :: string
  ownerPercentage :: jsnum
  creatorPercentage :: jsnum
  top10HolderBalance :: string
  top10HolderPercent :: jsnum
  totalSupply :: string

record TokenTradeData =
  trade_address :: "string option"
  price :: jsnum
  price_change_24h_percent :: jsnum
  unique_wallet_30m_change_percent :: "jsnum option"
  unique_wallet_1h_change_percent :: "jsnum option"
  unique_wallet_2h_change_percent :: "jsnum option"
  unique_wallet_4h_change_percent :: "jsnum option"
  unique_wallet_8h_change_percent :: "jsnum option"
  unique_wallet_24h :: jsnum
  unique_wallet_24h_change_percent :: "jsnum option"
  trade_24h_change_percent :: "jsnum option"
  volume_24h :: jsnum
  volume_24h_usd :: jsnum
  volume_24h_change_percent :: "jsnum option"

text \<open>
  A DEX pair as it comes out of the DexScreener payload, which is not validated.
  \<open>liquidity_usd\<close> is \<open>None\<close> when the pair has no \<open>liquidity\<close> object; otherwise
  it is the number that \<open>liquidity.usd\<close> stands for in arithmetic, \<open>NaN\<close> when the
  field is missing. \<open>pair_marketCap\<close> is the number that \<open>marketCap\<close> stands for,
  \<open>NaN\<close> when the field is missing. \<open>boosts\<close> may be absent.
\<close>

record DexScreenerPair =
  chainId :: string
  baseToken_address :: string
  liquidity_usd :: "jsnum option"
  pair_marketCap :: jsnum
  boosts_active :: "jsnum option"

record DexScreenerData =
  schemaVersion :: string
  pairs :: "DexScreenerPair list"

record HolderData =
  address :: string
  balance :: string

record HighValueHolder =
  holderAddress :: string
  balanceUsd :: string

record TokenCodex =
  codex_id :: string
  codex_address :: "string option"
  cmcId :: "jsnum option"
  decimals :: jsnum
  name :: string
  symbol :: string
  codex_totalSupply :: string
  circulatingSupply :: "string option"
  imageThumbUrl :: "string option"
  blueCheckmark :: "bool option"
  isScam :: bool

record ProcessedTokenData =
  security :: TokenSecurityData
  tradeData :: "TokenTradeData option"
  holderDistributionTrend :: string
  highValueHolders :: "HighValueHolder list"
  recentTrades :: bool
  highSupplyHoldersCount :: nat
  dexScreenerData :: DexScreenerData
  isDexScreenerListed :: bool
  isDexScreenerPaid :: bool
  tokenCodex :: TokenCodex

section \<open>Holder distribution trend\<close>

text \<open>
  \<open>TokenProvider.analyzeHolderDistribution\<close>. Every bucket is read through
  \<open>tradeData?.field ?? 0\<close>, so the list \<open>intervals\<close> holds numbers only; of the filter
  \<open>change !== null && change !== undefined && !isNaN(change)\<close> the last conjunct is
  the one that can still fail.
\<close>

definition analyzeHolderDistribution :: "TokenTradeData option \<Rightarrow> string" where
  "analyzeHolderDistribution trade =
     (let intervals =
            [nullish (Option.bind trade unique_wallet_30m_change_percent) (Fin 0),
             nullish (Option.bind trade unique_wallet_1h_change_percent) (Fin 0),
             nullish (Option.bind trade unique_wallet_2h_change_percent) (Fin 0),
             nullish (Option.bind trade unique_wallet_4h_change_percent) (Fin 0),
             nullish (Option.bind trade unique_wallet_8h_change_percent) (Fin 0),
             nullish (Option.bind trade unique_wallet_24h_change_percent) (Fin 0)];
          validChanges = filter (\<lambda>change. \<not> isNaN change) intervals
      in if length validChanges = 0 then ''stable''
         else
           (let averageChange =
                  js_div (foldl (\<lambda>acc curr. js_add acc curr) (Fin 0) validChanges)
                         (Fin (of_nat (length validChanges)));
                increaseThreshold = Fin 10;
                decreaseThreshold = Fin (- 10)
            in if js_gt averageChange increaseThreshold then ''increasing''
               else if js_lt averageChange decreaseThreshold then ''decreasing''
               else ''stable''))"

text \<open>
  The trend as the specification words it: the average runs over the buckets that hold a
  number, a \<open>null\<close> bucket is left out, and no numeric bucket at all gives \<open>stable\<close>.
\<close>

definition holderDistributionTrend_spec :: "TokenTradeData \<Rightarrow> string" where
  "holderDistributionTrend_spec td =
     (let buckets =
            [unique_wallet_30m_change_percent td, unique_wallet_1h_change_percent td,
             unique_wallet_2h_change_percent td, unique_wallet_4h_change_percent td,
             unique_wallet_8h_change_percent td, unique_wallet_24h_change_percent td];
          known = filter (\<lambda>v. \<not> isNaN v) (List.map_filter (\<lambda>b. b) buckets)
      in if known = [] then ''stable''
         else
           (let average = js_div (foldl js_add (Fin 0) known) (Fin (of_nat (length known)))
            in if js_gt average (Fin 10) then ''increasing''
               else if js_lt average (Fin (- 10)) then ''decreasing''
               else ''stable''))"

section \<open>Gem score\<close>

text \<open>
  \<open>calculateGemScore(token: any, criteria: any)\<close> reads four numbers of the token and
  four thresholds of the criteria. The weights are the decimal literals of the source.
\<close>

record GemToken =
  volume24hUSD :: jsnum
  liquidityUSD :: jsnum
  priceChange24h_percent :: jsnum
  marketCap :: jsnum

record GemCriteria =
  volumeThreshold :: jsnum
  liquidityThreshold :: jsnum
  priceSurgeThreshold :: jsnum
  maxMarketCap :: jsnum

definition normalize :: "jsnum \<Rightarrow> jsnum \<Rightarrow> jsnum \<Rightarrow> jsnum" where
  "normalize v min_v max_v =
     Math_max (Fin 0) (Math_min (Fin 1) (js_div (js_sub v min_v) (js_sub max_v min_v)))"

definition calculateGemScore :: "GemToken \<Rightarrow> GemCriteria \<Rightarrow> jsnum" where
  "calculateGemScore token criteria =
     (let score0 = Fin 0;
          score1 = js_add score0
                     (js_mul (normalize (volume24hUSD token) (Fin 0) (volumeThreshold criteria))
                             (Fin (3 / 10)));
          score2 = js_add score1
                     (js_mul (normalize (liquidityUSD token) (Fin 0) (liquidityThreshold criteria))
                             (Fin (25 / 100)));
          score3 = js_add score2
                     (js_mul (normalize (Math_abs (priceChange24h_percent token)) (Fin 0)
                                        (priceSurgeThreshold criteria))
                             (Fin (25 / 100)));
          score4 = js_add score3
                     (js_mul (js_sub (Fin 1)
                                (normalize (marketCap token) (Fin 0) (maxMarketCap criteria)))
                             (Fin (2 / 10)))
      in Math_round (js_mul score4 (Fin 100)))"

section \<open>Highest-liquidity pair\<close>

text \<open>
  \<open>Array.prototype.sort\<close> with a comparison function sorts the array in place and is
  stable. The comparison function is called on two elements and its result is read by
  sign: a positive number puts the second element first, anything else (a negative
  number, zero, and \<open>NaN\<close>, which the sort reads as zero) leaves the first element
  first. If the comparison function throws, the sort ends with that error before
  anything is written back to the array. The model is an insertion sort: an element goes
  before the first element it does not compare greater than. The array is part of the
  caller's \<open>DexScreenerData\<close>, so the function returns the updated object next to its
  result.
\<close>

fun insert_by ::
  "('a \<Rightarrow> 'a \<Rightarrow> error + jsnum) \<Rightarrow> 'a \<Rightarrow> 'a list \<Rightarrow> error + 'a list" where
  "insert_by cmp x [] = Inr [x]"
| "insert_by cmp x (y # ys) =
     (case cmp x y of
        Inl err \<Rightarrow> Inl err
      | Inr v \<Rightarrow>
          if js_gt v (Fin 0)
          then (case insert_by cmp x ys of Inl err \<Rightarrow> Inl err | Inr zs \<Rightarrow> Inr (y # zs))
          else Inr (x # y # ys))"

fun array_sort :: "('a \<Rightarrow> 'a \<Rightarrow> error + jsnum) \<Rightarrow> 'a list \<Rightarrow> error + 'a list" where
  "array_sort cmp [] = Inr []"
| "array_sort cmp (x # xs) =
     (case array_sort cmp xs of Inl err \<Rightarrow> Inl err | Inr ys \<Rightarrow> insert_by cmp x ys)"

text \<open>
  The comparison function of \<open>getHighestLiquidityPair\<close>. Reading \<open>usd\<close> of an absent
  \<open>liquidity\<close> object is a \<open>TypeError\<close>; the operand \<open>b.liquidity.usd\<close> is evaluated
  first. A difference that is \<open>NaN\<close> is not equal to zero and is returned as it is.
\<close>

definition liquidityCompare :: "DexScreenerPair \<Rightarrow> DexScreenerPair \<Rightarrow> error + jsnum" where
  "liquidityCompare a b =
     (case liquidity_usd b of
        None \<Rightarrow> Inl (TypeError ''Cannot read properties of undefined (reading usd)'')
      | Some lb \<Rightarrow>
          (case liquidity_usd a of
             None \<Rightarrow> Inl (TypeError ''Cannot read properties of undefined (reading usd)'')
           | Some la \<Rightarrow>
               (let liquidityDiff = js_sub lb la
                in if liquidityDiff \<noteq> Fin 0 then Inr liquidityDiff
                   else Inr (js_sub (pair_marketCap b) (pair_marketCap a)))))"

definition getHighestLiquidityPair ::
  "DexScreenerData \<Rightarrow> (error + DexScreenerPair option) \<times> DexScreenerData" where
  "getHighestLiquidityPair dexData =
     (if length (pairs dexData) = 0 then (Inr None, dexData)
      else
        (case array_sort liquidityCompare (pairs dexData) of
           Inl err \<Rightarrow> (Inl err, dexData)
         | Inr sorted_pairs \<Rightarrow>
             (Inr (case sorted_pairs of [] \<Rightarrow> None | p # _ \<Rightarrow> Some p),
              dexData\<lparr>pairs := sorted_pairs\<rparr>)))"

text \<open>
  The order the comparison function aims at: liquidity descending, ties by market cap
  descending. A pair without a liquidity object is in no order with any pair.
\<close>

definition liquidity_desc :: "DexScreenerPair \<Rightarrow> DexScreenerPair \<Rightarrow> bool" where
  "liquidity_desc a b =
     (case (liquidity_usd a, liquidity_usd b) of
        (Some la, Some lb) \<Rightarrow>
          js_gt la lb \<or>
          (js_le la lb \<and> js_le lb la \<and> js_le (pair_marketCap b) (pair_marketCap a))
      | _ \<Rightarrow> False)"

text \<open>A pair whose liquidity and market cap are both present and finite.\<close>

definition finite_pair :: "DexScreenerPair \<Rightarrow> bool" where
  "finite_pair p =
     (case (liquidity_usd p, pair_marketCap p) of
        (Some (Fin l), Fin m) \<Rightarrow> True
      | _ \<Rightarrow> False)"

section \<open>Trust score\<close>

text \<open>
  \<open>TokenPerformance\<close> and \<open>RecommenderMetrics\<close> come from the trust database package;
  the fields are the ones \<open>TrustScoreManager\<close> reads and writes. Dates are milliseconds
  since the epoch, as \<open>getTime()\<close> returns them.
\<close>

record TokenPerformance =
  priceChange24h :: jsnum
  rugPull :: bool
  perf_isScam :: bool
  rapidDump :: bool
  perf_suspiciousVolume :: bool

record RecommenderMetrics =
  recommenderId :: string
  trustScore :: jsnum
  totalRecommendations :: jsnum
  successfulRecs :: jsnum
  avgTokenPerformance :: jsnum
  riskScore :: jsnum
  consistencyScore :: jsnum
  virtualConfidence :: jsnum
  lastActiveDate :: int
  trustDecay :: jsnum
  lastUpdated :: int

definition DECAY_RATE :: rat where
  "DECAY_RATE = 95 / 100"

definition MAX_DECAY_DAYS :: int where
  "MAX_DECAY_DAYS = 30"

definition calculateRiskScore :: "TokenPerformance \<Rightarrow> jsnum" where
  "calculateRiskScore tokenPerformance =
     (let riskScore0 = Fin 0;
          riskScore1 = (if rugPull tokenPerformance then js_add riskScore0 (Fin 10) else riskScore0);
          riskScore2 = (if perf_isScam tokenPerformance then js_add riskScore1 (Fin 10) else riskScore1);
          riskScore3 = (if rapidDump tokenPerformance then js_add riskScore2 (Fin 5) else riskScore2);
          riskScore4 = (if perf_suspiciousVolume tokenPerformance then js_add riskScore3 (Fin 5)
                        else riskScore3)
      in riskScore4)"

definition calculateConsistencyScore :: "TokenPerformance \<Rightarrow> RecommenderMetrics \<Rightarrow> jsnum" where
  "calculateConsistencyScore tokenPerformance recommenderMetrics =
     Math_abs (js_sub (priceChange24h tokenPerformance) (avgTokenPerformance recommenderMetrics))"

definition calculateTrustScore :: "TokenPerformance \<Rightarrow> RecommenderMetrics \<Rightarrow> jsnum" where
  "calculateTrustScore tokenPerformance recommenderMetrics =
     (let risk = calculateRiskScore tokenPerformance;
          consistency = calculateConsistencyScore tokenPerformance recommenderMetrics
      in js_div (js_add risk consistency) (Fin 2))"

definition calculateOverallRiskScore :: "TokenPerformance \<Rightarrow> RecommenderMetrics \<Rightarrow> jsnum" where
  "calculateOverallRiskScore tokenPerformance recommenderMetrics =
     (let risk = calculateRiskScore tokenPerformance;
          consistency = calculateConsistencyScore tokenPerformance recommenderMetrics
      in js_div (js_add risk consistency) (Fin 2))"

text \<open>
  Whole days between two dates:
  \<open>Math.floor((now.getTime() - lastActive.getTime()) / (1000 * 60 * 60 * 24))\<close>.
\<close>

definition inactiveDays :: "int \<Rightarrow> int \<Rightarrow> int" where
  "inactiveDays now lastActive = (now - lastActive) div (1000 * 60 * 60 * 24)"

text \<open>
  \<open>updateRecommenderMetrics\<close> reads the stored metrics of the recommender, computes the
  new record and hands it to the database. The stored record, the wallet balance that
  \<open>getRecommenederBalance\<close> returned and the three readings of the clock are arguments;
  the result is the record passed to \<open>trustScoreDb.updateRecommenderMetrics\<close>.
\<close>

definition updateRecommenderMetrics ::
  "string \<Rightarrow> TokenPerformance \<Rightarrow> RecommenderMetrics \<Rightarrow> jsnum \<Rightarrow> int \<Rightarrow> int \<Rightarrow> int
     \<Rightarrow> RecommenderMetrics" where
  "updateRecommenderMetrics rid tokenPerformance recommenderMetrics wallet_balance now date2 date3 =
     (let totalRecs = js_add (totalRecommendations recommenderMetrics) (Fin 1);
          successful = (if rugPull tokenPerformance then successfulRecs recommenderMetrics
                        else js_add (successfulRecs recommenderMetrics) (Fin 1));
          avgPerformance =
            js_div (js_add (js_mul (avgTokenPerformance recommenderMetrics)
                                   (totalRecommendations recommenderMetrics))
                           (priceChange24h tokenPerformance))
                   totalRecs;
          overallTrustScore = calculateTrustScore tokenPerformance recommenderMetrics;
          risk = calculateOverallRiskScore tokenPerformance recommenderMetrics;
          consistency = calculateConsistencyScore tokenPerformance recommenderMetrics;
          confidence = js_div wallet_balance (Fin 1000000);
          lastActive = lastActiveDate recommenderMetrics;
          days = inactiveDays now lastActive;
          decayFactor = Fin (DECAY_RATE powi (min days MAX_DECAY_DAYS));
          decayedScore = js_mul (trustScore recommenderMetrics) decayFactor
      in \<lparr> recommenderId = rid,
           trustScore = overallTrustScore,
           totalRecommendations = totalRecs,
           successfulRecs = successful,
           avgTokenPerformance = avgPerformance,
           riskScore = risk,
           consistencyScore = consistency,
           virtualConfidence = confidence,
           lastActiveDate = date2,
           trustDecay = decayedScore,
           lastUpdated = date3 \<rparr>)"

text \<open>
  The \<open>recommenderMetrics\<close> component of the result of \<open>generateTrustScore\<close>: the stored
  values are passed through, the decayed score is computed by the same lines as above.
\<close>

definition generateTrustScore_metrics ::
  "string \<Rightarrow> RecommenderMetrics \<Rightarrow> jsnum \<Rightarrow> int \<Rightarrow> int \<Rightarrow> RecommenderMetrics" where
  "generateTrustScore_metrics rid recommenderMetrics wallet_balance now date2 =
     (let confidence = js_div wallet_balance (Fin 1000000);
          lastActive = lastActiveDate recommenderMetrics;
          days = inactiveDays now lastActive;
          decayFactor = Fin (DECAY_RATE powi (min days MAX_DECAY_DAYS));
          decayedScore = js_mul (trustScore recommenderMetrics) decayFactor
      in \<lparr> recommenderId = rid,
           trustScore = trustScore recommenderMetrics,
           totalRecommendations = totalRecommendations recommenderMetrics,
           successfulRecs = successfulRecs recommenderMetrics,
           avgTokenPerformance = avgTokenPerformance recommenderMetrics,
           riskScore = riskScore recommenderMetrics,
           consistencyScore = consistencyScore recommenderMetrics,
           virtualConfidence = confidence,
           lastActiveDate = now,
           trustDecay = decayedScore,
           lastUpdated = date2 \<rparr>)"

text \<open>
  \<open>suspiciousVolume\<close> awaits the processed token data and then compares the ratio of
  unique wallets to volume with \<open>0.5\<close>. The function below is that computation on the
  data the aggregator returned; reading a field of a \<open>null\<close> trade record is a
  \<open>TypeError\<close>.
\<close>

definition suspiciousVolume :: "ProcessedTokenData \<Rightarrow> error + bool" where
  "suspiciousVolume processedData =
     (case tradeData processedData of
        None \<Rightarrow> Inl (TypeError ''Cannot read properties of null'')
      | Some td \<Rightarrow>
          (let uw = unique_wallet_24h td;
               vol = volume_24h td
           in Inr (js_gt (js_div uw vol) (Fin (1 / 2)))))"


section \<open>The outside world\<close>

text \<open>
  The provider talks to five HTTP endpoints and to a durable cache store. What they
  answer is not decided by the program, so it is a parameter: every outbound call
  consumes one tick of the world, and the environment says what the call made at a given
  tick returns. A response is the rejection of \<open>fetch\<close>, or a status flag with a body
  that is not JSON, is \<open>null\<close>, or is an object. Bodies are typed by endpoint; a field
  the payload may lack is an \<open>option\<close>.
\<close>

datatype 'a parsed = NotJson | Null | Body 'a

datatype 'a response = FetchRejected | Response bool "'a parsed"

record SecurityRaw =
  raw_ownerBalance :: "string option"
  raw_creatorBalance :: "string option"
  raw_ownerPercentage :: "jsnum option"
  raw_creatorPercentage :: "jsnum option"
  raw_top10HolderBalance :: "string option"
  raw_top10HolderPercent :: "jsnum option"
  raw_totalSupply :: "string option"

record SecurityBody =
  security_success :: bool
  security_data :: "SecurityRaw option"

record Overview =
  overview_price :: "jsnum option"
  priceChange24hPercent :: "jsnum option"
  uniqueWallet30mChangePercent :: "jsnum option"
  uniqueWallet1hChangePercent :: "jsnum option"
  uniqueWallet2hChangePercent :: "jsnum option"
  uniqueWallet4hChangePercent :: "jsnum option"
  uniqueWallet8hChangePercent :: "jsnum option"
  uniqueWallet24h :: "jsnum option"
  uniqueWallet24hChangePercent :: "jsnum option"
  trade24hChangePercent :: "jsnum option"
  v24h :: "jsnum option"
  v24hUSD :: "jsnum option"
  v24hChangePercent :: "jsnum option"

record OverviewBody =
  overview_success :: bool
  overview_data :: "Overview option"

record DexBody =
  dex_schemaVersion :: "string option"
  dex_pairs :: "DexScreenerPair list option"

record HeliusAccount =
  account_address :: "string option"
  amount :: "string option"

text \<open>\<open>helius_value\<close> is \<open>data.result.value\<close> when it is an array.\<close>

record HeliusBody =
  helius_value :: "HeliusAccount list option"

text \<open>
  The Codex payload: \<open>errors\<close> present or not, and \<open>data.token\<close>. The adapter copies
  the token field by field into a \<open>TokenCodex\<close>, so the payload carries it in that shape.
\<close>

record CodexBody =
  codex_errors :: bool
  codex_token :: "TokenCodex option"

record IAgentRuntime =
  BIRDEYE_API_KEY :: "string option"

text \<open>
  \<open>toBN\<close> (module \<open>bignumber.ts\<close>) and \<open>BigNumber.toFixed\<close> are not part of the
  sources at hand; they are parameters. A \<open>BigNumber\<close> is modelled by a \<open>jsnum\<close>.
\<close>

record env =
  security_http :: "nat \<Rightarrow> SecurityBody response"
  overview_http :: "nat \<Rightarrow> OverviewBody response"
  dex_http :: "nat \<Rightarrow> DexBody response"
  helius_http :: "nat \<Rightarrow> HeliusBody response"
  codex_http :: "nat \<Rightarrow> CodexBody response"
  store_get_throws :: "nat \<Rightarrow> bool"
  store_set_throws :: "nat \<Rightarrow> bool"
  store_delete_throws :: "nat \<Rightarrow> bool"
  toBN_string :: "string \<Rightarrow> error + jsnum"
  toBN_number :: "jsnum \<Rightarrow> error + jsnum"
  toFixed2 :: "jsnum \<Rightarrow> string"

text \<open>
  The two cache tiers: the provider's in-process \<open>NodeCache\<close> and the durable store
  behind \<open>cacheManager\<close>. The keys of the five kinds of cached value carry different
  prefixes, so each kind has tiers of its own. Expiry is not modelled: an expired entry
  is an absent one.
\<close>

record 'v tiers =
  mem :: "string \<rightharpoonup> 'v"
  durable :: "string \<rightharpoonup> 'v"

record world =
  tick :: nat
  securityCache :: "TokenSecurityData tiers"
  tradeCache :: "TokenTradeData tiers"
  dexCache :: "DexScreenerData tiers"
  holderCache :: "HolderData list tiers"
  codexCache :: "TokenCodex tiers"

record TokenProvider =
  tokenAddress :: "string option"

subsection \<open>Asynchronous code: state and exceptions\<close>

text \<open>
  An \<open>async\<close> function is a function of the world that returns a value or a thrown
  error, and the world it leaves behind. \<open>bnd\<close> is \<open>await\<close> followed by the rest of the
  body, \<open>try_catch\<close> is a \<open>try\<close> block with its handler.
\<close>

type_synonym 'a io = "world \<Rightarrow> (error + 'a) \<times> world"

definition ret :: "'a \<Rightarrow> 'a io" where
  "ret v w = (Inr v, w)"

definition throw :: "error \<Rightarrow> 'a io" where
  "throw e w = (Inl e, w)"

definition bnd :: "'a io \<Rightarrow> ('a \<Rightarrow> 'b io) \<Rightarrow> 'b io" where
  "bnd m f w = (case m w of (Inl e, w') \<Rightarrow> (Inl e, w') | (Inr v, w') \<Rightarrow> f v w')"

definition try_catch :: "'a io \<Rightarrow> (error \<Rightarrow> 'a io) \<Rightarrow> 'a io" where
  "try_catch m h w = (case m w of (Inl e, w') \<Rightarrow> h e w' | (Inr v, w') \<Rightarrow> (Inr v, w'))"

definition lift :: "error + 'a \<Rightarrow> 'a io" where
  "lift r w = (r, w)"

subsection \<open>Collaborators\<close>

definition cacheManager_get ::
  "env \<Rightarrow> (world \<Rightarrow> 'v tiers) \<Rightarrow> string \<Rightarrow> 'v option io" where
  "cacheManager_get e sel k w =
     (if store_get_throws e (tick w)
      then (Inl (Error ''cache store: get failed''), w\<lparr>tick := Suc (tick w)\<rparr>)
      else (Inr (durable (sel w) k), w\<lparr>tick := Suc (tick w)\<rparr>))"

definition cacheManager_set ::
  "env \<Rightarrow> (('v tiers \<Rightarrow> 'v tiers) \<Rightarrow> world \<Rightarrow> world) \<Rightarrow> string \<Rightarrow> 'v \<Rightarrow> unit io" where
  "cacheManager_set e upd k v w =
     (if store_set_throws e (tick w)
      then (Inl (Error ''cache store: set failed''), w\<lparr>tick := Suc (tick w)\<rparr>)
      else (Inr (), upd (\<lambda>c. c\<lparr>durable := (durable c)(k \<mapsto> v)\<rparr>) (w\<lparr>tick := Suc (tick w)\<rparr>)))"

definition cacheManager_delete ::
  "env \<Rightarrow> (('v tiers \<Rightarrow> 'v tiers) \<Rightarrow> world \<Rightarrow> world) \<Rightarrow> string \<Rightarrow> unit io" where
  "cacheManager_delete e upd k w =
     (if store_delete_throws e (tick w)
      then (Inl (Error ''cache store: delete failed''), w\<lparr>tick := Suc (tick w)\<rparr>)
      else (Inr (), upd (\<lambda>c. c\<lparr>durable := (durable c)(k := None)\<rparr>) (w\<lparr>tick := Suc (tick w)\<rparr>)))"

definition nodeCache_get :: "(world \<Rightarrow> 'v tiers) \<Rightarrow> string \<Rightarrow> 'v option io" where
  "nodeCache_get sel k w = (Inr (mem (sel w) k), w)"

definition nodeCache_set ::
  "(('v tiers \<Rightarrow> 'v tiers) \<Rightarrow> world \<Rightarrow> world) \<Rightarrow> string \<Rightarrow> 'v \<Rightarrow> unit io" where
  "nodeCache_set upd k v w = (Inr (), upd (\<lambda>c. c\<lparr>mem := (mem c)(k \<mapsto> v)\<rparr>) w)"

text \<open>\<open>fetch\<close> resolves to a response or rejects; \<open>response.json()\<close> parses the body.\<close>

definition fetch :: "(nat \<Rightarrow> 'a response) \<Rightarrow> (bool \<times> 'a parsed) io" where
  "fetch oracle w =
     (case oracle (tick w) of
        FetchRejected \<Rightarrow> (Inl (Error ''fetch failed''), w\<lparr>tick := Suc (tick w)\<rparr>)
      | Response ok body \<Rightarrow> (Inr (ok, body), w\<lparr>tick := Suc (tick w)\<rparr>))"

definition response_json :: "'a parsed \<Rightarrow> 'a option io" where
  "response_json body =
     (case body of
        NotJson \<Rightarrow> throw (Error ''Unexpected token in JSON'')
      | Null \<Rightarrow> ret None
      | Body b \<Rightarrow> ret (Some b))"

definition toLowerCase :: "string \<Rightarrow> string" where
  "toLowerCase s =
     map (\<lambda>c. let n = (of_char c :: nat) in if 65 \<le> n \<and> n \<le> 90 then char_of (n + 32) else c) s"

definition path_join :: "string \<Rightarrow> string \<Rightarrow> string" where
  "path_join a b = a @ ''/'' @ b"

text \<open>A template literal prints a \<open>null\<close> address as the text \<open>null\<close>.\<close>

definition address_text :: "TokenProvider \<Rightarrow> string" where
  "address_text this = (case tokenAddress this of None \<Rightarrow> ''null'' | Some a \<Rightarrow> a)"

section \<open>Token provider\<close>

definition MAX_RETRIES :: nat where
  "MAX_RETRIES = 3"

definition cacheKey :: string where
  "cacheKey = ''solana/tokens''"

text \<open>
  The constructor. \<open>normalizeAddress\<close> (module \<open>keypairUtils\<close>) is a parameter: it
  returns the canonical address or throws. The result is a sum so that a throwing
  constructor could be told from a returning one.
\<close>

definition TokenProvider_new ::
  "(string \<Rightarrow> error + string) \<Rightarrow> string option \<Rightarrow> error + TokenProvider" where
  "TokenProvider_new normalizeAddress addr =
     (case addr of
        Some a \<Rightarrow>
          (if a \<noteq> [] then
             (case normalizeAddress a of
                Inr n \<Rightarrow> Inr \<lparr>tokenAddress = Some n\<rparr>
              | Inl err \<Rightarrow> Inr \<lparr>tokenAddress = None\<rparr>)
           else Inr \<lparr>tokenAddress = Some a\<rparr>)
      | None \<Rightarrow> Inr \<lparr>tokenAddress = None\<rparr>)"

definition getDefaultTradeData :: "TokenProvider \<Rightarrow> TokenTradeData" where
  "getDefaultTradeData this =
     \<lparr> trade_address = tokenAddress this,
       price = Fin 0,
       price_change_24h_percent = Fin 0,
       unique_wallet_30m_change_percent = Some (Fin 0),
       unique_wallet_1h_change_percent = Some (Fin 0),
       unique_wallet_2h_change_percent = Some (Fin 0),
       unique_wallet_4h_change_percent = Some (Fin 0),
       unique_wallet_8h_change_percent = None,
       unique_wallet_24h = Fin 0,
       unique_wallet_24h_change_percent = None,
       trade_24h_change_percent = None,
       volume_24h = Fin 0,
       volume_24h_usd = Fin 0,
       volume_24h_change_percent = None \<rparr>"

subsection \<open>Two-tier cache\<close>

definition readFromCache ::
  "env \<Rightarrow> (world \<Rightarrow> 'v tiers) \<Rightarrow> string \<Rightarrow> 'v option io" where
  "readFromCache e sel k =
     try_catch (cacheManager_get e sel (path_join cacheKey k)) (\<lambda>err. ret None)"

definition writeToCache ::
  "env \<Rightarrow> (('v tiers \<Rightarrow> 'v tiers) \<Rightarrow> world \<Rightarrow> world) \<Rightarrow> string \<Rightarrow> 'v \<Rightarrow> unit io" where
  "writeToCache e upd k v =
     try_catch (cacheManager_set e upd (path_join cacheKey k) v) (\<lambda>err. ret ())"

definition getCachedData ::
  "env \<Rightarrow> (world \<Rightarrow> 'v tiers) \<Rightarrow> (('v tiers \<Rightarrow> 'v tiers) \<Rightarrow> world \<Rightarrow> world) \<Rightarrow> string
     \<Rightarrow> 'v option io" where
  "getCachedData e sel upd k =
     try_catch
       (bnd (nodeCache_get sel k) (\<lambda>cachedData.
          case cachedData of
            Some d \<Rightarrow> ret (Some d)
          | None \<Rightarrow>
              bnd (readFromCache e sel k) (\<lambda>fileCachedData.
                case fileCachedData of
                  Some d \<Rightarrow> bnd (nodeCache_set upd k d) (\<lambda>_. ret (Some d))
                | None \<Rightarrow> ret None)))
       (\<lambda>err. ret None)"

definition setCachedData ::
  "env \<Rightarrow> (('v tiers \<Rightarrow> 'v tiers) \<Rightarrow> world \<Rightarrow> world) \<Rightarrow> string \<Rightarrow> 'v \<Rightarrow> unit io" where
  "setCachedData e upd k v =
     try_catch (bnd (nodeCache_set upd k v) (\<lambda>_. writeToCache e upd k v)) (\<lambda>err. ret ())"

subsection \<open>Retrying fetch\<close>

text \<open>
  \<open>fetchWithRetry\<close>: the loop runs \<open>MAX_RETRIES\<close> attempts; an attempt that rejects,
  answers with a status that is not ok, or has a body that does not parse, is recorded
  as \<open>lastError\<close>; after the last attempt \<open>lastError\<close> is thrown. The recursion is on the
  number of attempts left. The delay between attempts is not modelled.
\<close>

definition attempt :: "(nat \<Rightarrow> 'a response) \<Rightarrow> 'a option io" where
  "attempt oracle =
     bnd (fetch oracle) (\<lambda>(ok, body).
       if \<not> ok then throw (Error ''HTTP error!'') else response_json body)"

fun fetchWithRetry_loop :: "(nat \<Rightarrow> 'a response) \<Rightarrow> nat \<Rightarrow> error option \<Rightarrow> 'a option io" where
  "fetchWithRetry_loop oracle 0 lastError w =
     (Inl (case lastError of None \<Rightarrow> ThrownUndefined | Some err \<Rightarrow> err), w)"
| "fetchWithRetry_loop oracle (Suc n) lastError w =
     (case attempt oracle w of
        (Inr data, w') \<Rightarrow> (Inr data, w')
      | (Inl err, w') \<Rightarrow> fetchWithRetry_loop oracle n (Some err) w')"

definition fetchWithRetry :: "(nat \<Rightarrow> 'a response) \<Rightarrow> 'a option io" where
  "fetchWithRetry oracle = fetchWithRetry_loop oracle MAX_RETRIES None"

subsection \<open>Source adapters\<close>

text \<open>The zeroed security record that \<open>fetchTokenSecurity\<close> and the aggregator write out.\<close>

definition zeroSecurity :: TokenSecurityData where
  "zeroSecurity =
     \<lparr> ownerBalance = ''0'', creatorBalance = ''0'', ownerPercentage = Fin 0,
       creatorPercentage = Fin 0, top10HolderBalance = ''0'', top10HolderPercent = Fin 0,
       totalSupply = ''0'' \<rparr>"

definition noPairs :: DexScreenerData where
  "noPairs = \<lparr> schemaVersion = ''1.0.0'', pairs = [] \<rparr>"

text \<open>
  \<open>fetchTokenSecurity\<close>. The cache key is built from \<open>this.tokenAddress.toLowerCase()\<close>
  before the \<open>try\<close> block, so a \<open>null\<close> address is a \<open>TypeError\<close> of the call.
\<close>

definition fetchTokenSecurity :: "env \<Rightarrow> TokenProvider \<Rightarrow> TokenSecurityData io" where
  "fetchTokenSecurity e this =
     (case tokenAddress this of
        None \<Rightarrow> throw (TypeError ''Cannot read properties of null (reading toLowerCase)'')
      | Some a \<Rightarrow>
          (let key = ''tokenSecurity_'' @ toLowerCase a
           in bnd (getCachedData e securityCache securityCache_update key) (\<lambda>cachedData.
                case cachedData of
                  Some d \<Rightarrow> ret d
                | None \<Rightarrow>
                    try_catch
                      (bnd (fetchWithRetry (security_http e)) (\<lambda>data.
                         case Option.bind data
                                (\<lambda>b. if security_success b then security_data b else None) of
                           None \<Rightarrow> ret zeroSecurity
                         | Some raw \<Rightarrow>
                             (let sec =
                                \<lparr> ownerBalance =
                                    str_or (raw_ownerBalance raw)
                                      (str_or (raw_creatorBalance raw) ''0''),
                                  creatorBalance = str_or (raw_creatorBalance raw) ''0'',
                                  ownerPercentage =
                                    num_or (raw_ownerPercentage raw)
                                      (num_or (raw_creatorPercentage raw) (Fin 0)),
                                  creatorPercentage = num_or (raw_creatorPercentage raw) (Fin 0),
                                  top10HolderBalance = str_or (raw_top10HolderBalance raw) ''0'',
                                  top10HolderPercent = num_or (raw_top10HolderPercent raw) (Fin 0),
                                  totalSupply = str_or (raw_totalSupply raw) ''0'' \<rparr>
                              in bnd (setCachedData e securityCache_update key sec)
                                   (\<lambda>_. ret sec))))
                      (\<lambda>err. ret zeroSecurity))))"

text \<open>
  \<open>fetchTokenCodex\<close>, called without arguments as the aggregator does: the branch that
  looks the address up by symbol needs both arguments and is not taken.
\<close>

definition fetchTokenCodex :: "env \<Rightarrow> TokenProvider \<Rightarrow> TokenCodex io" where
  "fetchTokenCodex e this =
     try_catch
       (case tokenAddress this of
          None \<Rightarrow> throw (Error ''No token address available for fetching token codex'')
        | Some a \<Rightarrow>
            if a = [] then throw (Error ''No token address available for fetching token codex'')
            else
              (let key = ''token_'' @ a
               in bnd (getCachedData e codexCache codexCache_update key) (\<lambda>cachedData.
                    case cachedData of
                      Some d \<Rightarrow> ret d
                    | None \<Rightarrow>
                        bnd (fetch (codex_http e)) (\<lambda>(ok, body).
                        bnd (response_json body) (\<lambda>responseData.
                          if \<not> ok then throw (Error ''Codex API error'')
                          else
                            (case responseData of
                               None \<Rightarrow> throw (TypeError ''Cannot read properties of null (reading errors)'')
                             | Some rb \<Rightarrow>
                                 if codex_errors rb then throw (Error ''GraphQL errors'')
                                 else
                                   (case codex_token rb of
                                      None \<Rightarrow> throw (Error ''No data returned for token'')
                                    | Some token \<Rightarrow>
                                        bnd (setCachedData e codexCache_update key token)
                                          (\<lambda>_. ret token))))))))
       (\<lambda>err. throw err)"

text \<open>
  \<open>fetchTokenTradeData\<close>. A missing API key makes the function return \<open>null\<close>; any
  error inside the \<open>try\<close> block is rethrown as \<open>Failed to fetch token trade data\<close>.
\<close>

definition fetchTokenTradeData ::
  "env \<Rightarrow> IAgentRuntime option \<Rightarrow> TokenProvider \<Rightarrow> TokenTradeData option io" where
  "fetchTokenTradeData e runtime this =
     (let key = ''tokenTradeData_'' @ address_text this
      in bnd (getCachedData e tradeCache tradeCache_update key) (\<lambda>cachedData.
           if (case cachedData of None \<Rightarrow> False | Some d \<Rightarrow> js_truthy (price d))
           then ret cachedData
           else
             try_catch
               (case runtime of
                  None \<Rightarrow> throw (TypeError ''Cannot read properties of undefined (reading getSetting)'')
                | Some rt \<Rightarrow>
                    if str_or (BIRDEYE_API_KEY rt) [] = [] then ret None
                    else
                      bnd (fetchWithRetry (overview_http e)) (\<lambda>data.
                        case Option.bind data
                               (\<lambda>b. if overview_success b then overview_data b else None) of
                          None \<Rightarrow> throw (Error ''No token overview data available'')
                        | Some overview \<Rightarrow>
                            (let td =
                               \<lparr> trade_address = tokenAddress this,
                                 price = num_or (overview_price overview) (Fin 0),
                                 price_change_24h_percent =
                                   num_or (priceChange24hPercent overview) (Fin 0),
                                 unique_wallet_30m_change_percent =
                                   Some (num_or (uniqueWallet30mChangePercent overview) (Fin 0)),
                                 unique_wallet_1h_change_percent =
                                   Some (num_or (uniqueWallet1hChangePercent overview) (Fin 0)),
                                 unique_wallet_2h_change_percent =
                                   Some (num_or (uniqueWallet2hChangePercent overview) (Fin 0)),
                                 unique_wallet_4h_change_percent =
                                   Some (num_or (uniqueWallet4hChangePercent overview) (Fin 0)),
                                 unique_wallet_8h_change_percent =
                                   uniqueWallet8hChangePercent overview,
                                 unique_wallet_24h = num_or (uniqueWallet24h overview) (Fin 0),
                                 unique_wallet_24h_change_percent =
                                   uniqueWallet24hChangePercent overview,
                                 trade_24h_change_percent =
                                   (case trade24hChangePercent overview of
                                      None \<Rightarrow> None
                                    | Some v \<Rightarrow> if js_truthy v then Some v else None),
                                 volume_24h = num_or (v24h overview) (Fin 0),
                                 volume_24h_usd = num_or (v24hUSD overview) (Fin 0),
                                 volume_24h_change_percent =
                                   (case v24hChangePercent overview of
                                      None \<Rightarrow> None
                                    | Some v \<Rightarrow> if js_truthy v then Some v else None) \<rparr>
                             in bnd (setCachedData e tradeCache_update key td)
                                  (\<lambda>_. ret (Some td)))))
               (\<lambda>err. throw (Error ''Failed to fetch token trade data''))))"

text \<open>
  \<open>fetchDexScreenerData\<close>. The filter compares with \<open>this.tokenAddress.toLowerCase()\<close>
  only for a pair whose chain is \<open>solana\<close>; with a \<open>null\<close> address the first such pair
  raises a \<open>TypeError\<close> inside the \<open>try\<close> block.
\<close>

definition fetchDexScreenerData :: "env \<Rightarrow> TokenProvider \<Rightarrow> DexScreenerData io" where
  "fetchDexScreenerData e this =
     (let key = ''dexScreenerData_'' @ address_text this
      in bnd (getCachedData e dexCache dexCache_update key) (\<lambda>cachedData.
           case (case cachedData of
                   None \<Rightarrow> None
                 | Some d \<Rightarrow> if length (pairs d) > 0 then Some d else None) of
             Some d \<Rightarrow> ret d
           | None \<Rightarrow>
               try_catch
                 (bnd (fetch (dex_http e)) (\<lambda>(ok, body).
                  bnd (response_json body) (\<lambda>data.
                    case Option.bind data dex_pairs of
                      None \<Rightarrow> ret noPairs
                    | Some ps \<Rightarrow>
                        if length ps = 0 then ret noPairs
                        else
                          (case tokenAddress this of
                             None \<Rightarrow>
                               if list_ex (\<lambda>pair. chainId pair = ''solana'') ps
                               then throw (TypeError ''Cannot read properties of null (reading toLowerCase)'')
                               else ret \<lparr> schemaVersion =
                                            str_or (Option.bind data dex_schemaVersion) ''1.0.0'',
                                          pairs = [] \<rparr>
                           | Some a \<Rightarrow>
                               (let solanaPairs =
                                      filter (\<lambda>pair. chainId pair = ''solana'' \<and>
                                                toLowerCase (baseToken_address pair) = toLowerCase a) ps;
                                    dexData =
                                      \<lparr> schemaVersion =
                                          str_or (Option.bind data dex_schemaVersion) ''1.0.0'',
                                        pairs = solanaPairs \<rparr>
                                in bnd (if length solanaPairs > 0
                                        then setCachedData e dexCache_update key dexData
                                        else ret ())
                                     (\<lambda>_. ret dexData))))))
                 (\<lambda>err. ret noPairs)))"

text \<open>
  \<open>fetchHolderList\<close>. The accounts of the response are mapped to holders and those
  without an address or a balance are filtered out; \<open>holders_of\<close> is the two steps
  together.
\<close>

definition holders_of :: "HeliusAccount list \<Rightarrow> HolderData list" where
  "holders_of accounts =
     List.map_filter
       (\<lambda>account.
          case (account_address account, amount account) of
            (Some a, Some b) \<Rightarrow>
              if a \<noteq> [] \<and> b \<noteq> [] then Some \<lparr> address = a, balance = b \<rparr> else None
          | _ \<Rightarrow> None)
       accounts"

definition fetchHolderList :: "env \<Rightarrow> TokenProvider \<Rightarrow> HolderData list io" where
  "fetchHolderList e this =
     (let key = ''holderList_'' @ address_text this
      in bnd (getCachedData e holderCache holderCache_update key) (\<lambda>cachedData.
           case (case cachedData of
                   None \<Rightarrow> None
                 | Some hs \<Rightarrow> if length hs > 0 then Some hs else None) of
             Some hs \<Rightarrow> ret hs
           | None \<Rightarrow>
               try_catch
                 (bnd (fetch (helius_http e)) (\<lambda>(ok, body).
                  bnd (response_json body) (\<lambda>data.
                    case Option.bind data helius_value of
                      None \<Rightarrow> ret []
                    | Some accounts \<Rightarrow>
                        (let holders = holders_of accounts
                         in bnd (if length holders > 0
                                 then setCachedData e holderCache_update key holders
                                 else ret ())
                              (\<lambda>_. ret holders)))))
                 (\<lambda>err. ret [])))"

subsection \<open>Derived signals\<close>

text \<open>Collect the results of a list of computations that may throw; the first error wins.\<close>

fun collect :: "(error + 'a) list \<Rightarrow> error + 'a list" where
  "collect [] = Inr []"
| "collect (Inl err # rs) = Inl err"
| "collect (Inr v # rs) = (case collect rs of Inl err \<Rightarrow> Inl err | Inr vs \<Rightarrow> Inr (v # vs))"

definition filterHighValueHolders ::
  "env \<Rightarrow> TokenProvider \<Rightarrow> TokenTradeData option \<Rightarrow> HighValueHolder list io" where
  "filterHighValueHolders e this trade =
     try_catch
       (case (case trade of None \<Rightarrow> None
                          | Some td \<Rightarrow> if js_truthy (price td) then Some td else None) of
          None \<Rightarrow> ret []
        | Some td \<Rightarrow>
            bnd (fetchHolderList e this) (\<lambda>holdersData.
              if length holdersData = 0 then ret []
              else
                bnd (lift (toBN_number e (price td))) (\<lambda>tokenPriceUsd.
                  (let kept =
                         filter
                           (\<lambda>holder.
                              case toBN_string e (if balance holder \<noteq> [] then balance holder else ''0'') of
                                Inl err \<Rightarrow> False
                              | Inr bal \<Rightarrow> js_gt (js_mul bal tokenPriceUsd) (Fin 5))
                           holdersData
                   in lift
                        (collect
                           (map (\<lambda>holder.
                                   case toBN_string e
                                          (if balance holder \<noteq> [] then balance holder else ''0'') of
                                     Inl err \<Rightarrow> Inl err
                                   | Inr bal \<Rightarrow>
                                       Inr \<lparr> holderAddress = address holder,
                                             balanceUsd = toFixed2 e (js_mul bal tokenPriceUsd) \<rparr>)
                              kept))))))
       (\<lambda>err. ret [])"

definition checkRecentTrades :: "env \<Rightarrow> TokenTradeData option \<Rightarrow> bool io" where
  "checkRecentTrades e trade =
     (case (case trade of None \<Rightarrow> None
                        | Some td \<Rightarrow> if js_truthy (volume_24h_usd td) then Some td else None) of
        None \<Rightarrow> ret False
      | Some td \<Rightarrow>
          try_catch
            (bnd (lift (toBN_number e (volume_24h_usd td))) (\<lambda>v. ret (js_gt v (Fin 0))))
            (\<lambda>err. ret False))"

definition countHighSupplyHolders ::
  "env \<Rightarrow> TokenProvider \<Rightarrow> TokenSecurityData option \<Rightarrow> nat io" where
  "countHighSupplyHolders e this securityData =
     try_catch
       (case securityData of
          None \<Rightarrow> ret 0
        | Some sd \<Rightarrow>
            (let balanceToUse = (if ownerBalance sd \<noteq> [] then ownerBalance sd else creatorBalance sd)
             in if balanceToUse = [] then ret 0
                else
                  bnd (lift (toBN_string e balanceToUse)) (\<lambda>mainBalance.
                  bnd (lift (toBN_string e (if totalSupply sd \<noteq> [] then totalSupply sd else ''0'')))
                    (\<lambda>total.
                       if total = Fin 0 then ret 0
                       else
                         bnd (fetchHolderList e this) (\<lambda>holdersData.
                           ret (length
                                  (filter
                                     (\<lambda>holder.
                                        case toBN_string e (balance holder) of
                                          Inl err \<Rightarrow> False
                                        | Inr bal \<Rightarrow> js_gt (js_div bal total) (Fin (2 / 100)))
                                     holdersData)))))))
       (\<lambda>err. ret 0)"

subsection \<open>Aggregator\<close>

definition defaultCodex :: "TokenProvider \<Rightarrow> TokenCodex" where
  "defaultCodex this =
     \<lparr> codex_id = [], codex_address = tokenAddress this, cmcId = Some (Fin 0),
       decimals = Fin 9, name = [], symbol = [], codex_totalSupply = ''0'',
       circulatingSupply = Some ''0'', imageThumbUrl = Some [], blueCheckmark = Some False,
       isScam = False \<rparr>"

text \<open>
  \<open>getProcessedTokenData\<close>. The adapters are awaited one after the other.
  \<open>fetchTokenSecurity\<close> returns a record, so the test \<open>!security\<close> that follows it in
  the source never fires. The key handed to \<open>cacheManager.delete\<close> is the bare cache
  key, without the \<open>solana/tokens\<close> prefix of the entries.
\<close>

definition getProcessedTokenData ::
  "env \<Rightarrow> IAgentRuntime option \<Rightarrow> TokenProvider \<Rightarrow> ProcessedTokenData io" where
  "getProcessedTokenData e runtime this =
     try_catch
       (bnd (fetchTokenSecurity e this) (\<lambda>sec.
        bnd (try_catch (fetchTokenCodex e this) (\<lambda>err. ret (defaultCodex this))) (\<lambda>codex.
        bnd (try_catch
               (bnd (fetchTokenTradeData e runtime this) (\<lambda>td.
                  if (case td of None \<Rightarrow> True | Some d \<Rightarrow> \<not> js_truthy (price d))
                  then
                    bnd (cacheManager_delete e tradeCache_update
                           (''tokenTradeData_'' @ address_text this))
                      (\<lambda>_. fetchTokenTradeData e runtime this)
                  else ret td))
               (\<lambda>err. ret (Some (getDefaultTradeData this)))) (\<lambda>trade.
        bnd (try_catch
               (bnd (fetchDexScreenerData e this) (\<lambda>d.
                  if length (pairs d) = 0 then ret noPairs else ret d))
               (\<lambda>err. ret noPairs)) (\<lambda>dexData.
        bnd (ret (analyzeHolderDistribution trade)) (\<lambda>trend.
        bnd (filterHighValueHolders e this trade) (\<lambda>holders.
        bnd (checkRecentTrades e trade) (\<lambda>recent.
        bnd (countHighSupplyHolders e this (Some sec)) (\<lambda>supplyCount.
          ret \<lparr> security = sec,
                tradeData = trade,
                holderDistributionTrend = trend,
                highValueHolders = holders,
                recentTrades = recent,
                highSupplyHoldersCount = supplyCount,
                dexScreenerData = dexData,
                isDexScreenerListed = (length (pairs dexData) > 0),
                isDexScreenerPaid =
                  list_ex (\<lambda>pair. case boosts_active pair of
                                     None \<Rightarrow> False
                                   | Some b \<Rightarrow> js_gt b (Fin 0))
                    (pairs dexData),
                tokenCodex = codex \<rparr>)))))))))
       (\<lambda>err. throw err)"

section \<open>Auxiliary notions for the properties\<close>

text \<open>A computation returns when, from every world, it yields a value and not an error.\<close>

definition returns :: "'a io \<Rightarrow> bool" where
  "returns m = (\<forall>w. \<exists>v w'. m w = (Inr v, w'))"




text \<open>The snapshot in which every part is the default that the aggregator substitutes.\<close>

definition all_defaults :: "TokenProvider \<Rightarrow> ProcessedTokenData" where
  "all_defaults this =
     \<lparr> security = zeroSecurity,
       tradeData = Some (getDefaultTradeData this),
       holderDistributionTrend = ''stable'',
       highValueHolders = [],
       recentTrades = False,
       highSupplyHoldersCount = 0,
       dexScreenerData = noPairs,
       isDexScreenerListed = False,
       isDexScreenerPaid = False,
       tokenCodex = defaultCodex this \<rparr>"

section \<open>Concrete inputs\<close>

text \<open>
  An environment in which the network is down: every request is rejected. The cache
  store works, and \<open>toBN\<close> reads the one string it is given here.
\<close>

definition offline :: env where
  "offline =
     \<lparr> security_http = (\<lambda>_. FetchRejected),
       overview_http = (\<lambda>_. FetchRejected),
       dex_http = (\<lambda>_. FetchRejected),
       helius_http = (\<lambda>_. FetchRejected),
       codex_http = (\<lambda>_. FetchRejected),
       store_get_throws = (\<lambda>_. False),
       store_set_throws = (\<lambda>_. False),
       store_delete_throws = (\<lambda>_. False),
       toBN_string = (\<lambda>s. if s = ''0'' then Inr (Fin 0) else Inl (Error ''not a number'')),
       toBN_number = (\<lambda>n. Inr n),
       toFixed2 = (\<lambda>n. ''0.00'') \<rparr>"

text \<open>The ledger answers, with no holder at all and with one holder.\<close>

definition no_holders :: env where
  "no_holders =
     offline\<lparr> helius_http := (\<lambda>_. Response True (Body \<lparr> helius_value = Some [] \<rparr>)) \<rparr>"

definition one_holder :: env where
  "one_holder =
     offline\<lparr> helius_http :=
       (\<lambda>_. Response True
               (Body \<lparr> helius_value =
                        Some [\<lparr> account_address = Some ''H1'', amount = Some ''100'' \<rparr>] \<rparr>)) \<rparr>"

definition empty_tiers :: "'v tiers" where
  "empty_tiers = \<lparr> mem = Map.empty, durable = Map.empty \<rparr>"

definition fresh :: world where
  "fresh =
     \<lparr> tick = 0, securityCache = empty_tiers, tradeCache = empty_tiers,
       dexCache = empty_tiers, holderCache = empty_tiers, codexCache = empty_tiers \<rparr>"

definition sol :: TokenProvider where
  "sol = \<lparr> tokenAddress = Some ''So11'' \<rparr>"

definition keyed :: IAgentRuntime where
  "keyed = \<lparr> BIRDEYE_API_KEY = Some ''k'' \<rparr>"

text \<open>A \<open>normalizeAddress\<close> that rejects its argument.\<close>

definition reject_address :: "string \<Rightarrow> error + string" where
  "reject_address s = Inl (Error ''Invalid address'')"

text \<open>
  Trade data as the overview adapter builds it when the source has no history for the
  two long buckets: four known changes of 15 percent, the 8h and 24h changes \<open>null\<close>,
  50 unique wallets and no volume.
\<close>

definition short_history :: TokenTradeData where
  "short_history =
     \<lparr> trade_address = Some ''So11'',
       price = Fin 1,
       price_change_24h_percent = Fin 0,
       unique_wallet_30m_change_percent = Some (Fin 15),
       unique_wallet_1h_change_percent = Some (Fin 15),
       unique_wallet_2h_change_percent = Some (Fin 15),
       unique_wallet_4h_change_percent = Some (Fin 15),
       unique_wallet_8h_change_percent = None,
       unique_wallet_24h = Fin 50,
       unique_wallet_24h_change_percent = None,
       trade_24h_change_percent = None,
       volume_24h = Fin 0,
       volume_24h_usd = Fin 0,
       volume_24h_change_percent = None \<rparr>"

definition short_history_snapshot :: ProcessedTokenData where
  "short_history_snapshot = (all_defaults sol)\<lparr> tradeData := Some short_history \<rparr>"

definition criteria_example :: GemCriteria where
  "criteria_example =
     \<lparr> volumeThreshold = Fin 20000, liquidityThreshold = Fin 250000,
       priceSurgeThreshold = Fin 50, maxMarketCap = Fin 50000000 \<rparr>"

definition criteria_zero_volume :: GemCriteria where
  "criteria_zero_volume = criteria_example\<lparr> volumeThreshold := Fin 0 \<rparr>"

definition token_low :: GemToken where
  "token_low =
     \<lparr> volume24hUSD = Fin 10000, liquidityUSD = Fin 100000,
       priceChange24h_percent = Fin (- 20), marketCap = Fin 1000000 \<rparr>"

definition token_high :: GemToken where
  "token_high =
     \<lparr> volume24hUSD = Fin 15000, liquidityUSD = Fin 200000,
       priceChange24h_percent = Fin 30, marketCap = Fin 1000000 \<rparr>"

definition token_no_volume :: GemToken where
  "token_no_volume = token_low\<lparr> volume24hUSD := Fin 0 \<rparr>"

definition three_pairs :: DexScreenerData where
  "three_pairs =
     \<lparr> schemaVersion = ''1.0.0'',
       pairs =
         [\<lparr> chainId = ''solana'', baseToken_address = ''So11'', liquidity_usd = Some (Fin 10),
            pair_marketCap = Fin 5, boosts_active = None \<rparr>,
          \<lparr> chainId = ''solana'', baseToken_address = ''So11'', liquidity_usd = Some (Fin 30),
            pair_marketCap = Fin 1, boosts_active = None \<rparr>,
          \<lparr> chainId = ''solana'', baseToken_address = ''So11'', liquidity_usd = Some (Fin 30),
            pair_marketCap = Fin 7, boosts_active = None \<rparr>] \<rparr>"

text \<open>
  Payloads the search endpoint can hand over: a pair whose \<open>liquidity\<close> object has no
  \<open>usd\<close> field between two complete pairs, and a pair without a \<open>liquidity\<close> object
  after a complete one.
\<close>

definition pair_with :: "jsnum option \<Rightarrow> jsnum \<Rightarrow> DexScreenerPair" where
  "pair_with l m =
     \<lparr> chainId = ''solana'', baseToken_address = ''So11'', liquidity_usd = l,
       pair_marketCap = m, boosts_active = None \<rparr>"

definition missing_usd :: DexScreenerData where
  "missing_usd =
     \<lparr> schemaVersion = ''1.0.0'',
       pairs = [pair_with (Some (Fin 5)) (Fin 1), pair_with (Some NaN) (Fin 1),
                pair_with (Some (Fin 10)) (Fin 1)] \<rparr>"

definition missing_liquidity :: DexScreenerData where
  "missing_liquidity =
     \<lparr> schemaVersion = ''1.0.0'',
       pairs = [pair_with (Some (Fin 10)) (Fin 1), pair_with None (Fin 1)] \<rparr>"

section \<open>Properties of the scoring functions\<close>

lemmas io_defs = ret_def throw_def bnd_def try_catch_def lift_def
  cacheManager_get_def cacheManager_set_def cacheManager_delete_def nodeCache_get_def
  nodeCache_set_def fetch_def response_json_def readFromCache_def writeToCache_def
  getCachedData_def setCachedData_def

lemmas input_defs = offline_def no_holders_def one_holder_def empty_tiers_def fresh_def
  sol_def keyed_def

subsection \<open>Gem score\<close>

lemma normalize_finite:
  assumes "0 < t"
  shows "normalize (Fin v) (Fin 0) (Fin t) = Fin (max 0 (min 1 (v / t)))"
  using assms by (auto simp: normalize_def js_sub_def Math_max_def Math_min_def max_def min_def)

lemma gem_score_finite:
  assumes "volumeThreshold c = Fin vt" "0 < vt"
    and "liquidityThreshold c = Fin lt" "0 < lt"
    and "priceSurgeThreshold c = Fin pt" "0 < pt"
    and "maxMarketCap c = Fin mt" "0 < mt"
    and "volume24hUSD a = Fin v" "liquidityUSD a = Fin l"
    and "priceChange24h_percent a = Fin p" "marketCap a = Fin m"
  shows "calculateGemScore a c =
         Fin (of_int \<lfloor>(max 0 (min 1 (v / vt)) * (3 / 10) + max 0 (min 1 (l / lt)) * (25 / 100)
                 + max 0 (min 1 (\<bar>p\<bar> / pt)) * (25 / 100)
                 + (1 - max 0 (min 1 (m / mt))) * (2 / 10)) * 100 + 1 / 2\<rfloor>)"
  using assms by (simp add: calculateGemScore_def normalize_finite js_sub_def Let_def)

lemma clamp_mono:
  fixes x y t :: rat
  assumes "x \<le> y" "0 < t"
  shows "max 0 (min 1 (x / t)) \<le> max 0 (min 1 (y / t))"
proof -
  have "x / t \<le> y / t" using assms by (simp add: divide_right_mono)
  then show ?thesis by (simp add: max_def min_def)
qed

lemma weighted_sum_mono:
  fixes a a' b b' c c' d :: rat
  assumes "a \<le> a'" "b \<le> b'" "c \<le> c'"
  shows "(a * (3 / 10) + b * (25 / 100) + c * (25 / 100) + d) * 100 + 1 / 2
         \<le> (a' * (3 / 10) + b' * (25 / 100) + c' * (25 / 100) + d) * 100 + 1 / 2"
  using assms by (intro add_mono mult_right_mono order_refl) simp_all

text \<open>
  Claim C8, amended. For strictly positive thresholds and finite signals the gem score
  does not decrease when the 24h volume, the liquidity and the absolute 24h price change
  grow (each of them, or all at once) while the market cap and the criteria stay fixed.
\<close>

theorem gem_score_monotone:
  assumes "volumeThreshold c = Fin vt" "0 < vt"
    and "liquidityThreshold c = Fin lt" "0 < lt"
    and "priceSurgeThreshold c = Fin pt" "0 < pt"
    and "maxMarketCap c = Fin mt" "0 < mt"
    and "volume24hUSD a = Fin v" "volume24hUSD b = Fin v'" "v \<le> v'"
    and "liquidityUSD a = Fin l" "liquidityUSD b = Fin l'" "l \<le> l'"
    and "priceChange24h_percent a = Fin p" "priceChange24h_percent b = Fin p'" "\<bar>p\<bar> \<le> \<bar>p'\<bar>"
    and "marketCap a = Fin m" "marketCap b = Fin m"
  shows "js_le (calculateGemScore a c) (calculateGemScore b c)"
proof -
  let ?n = "\<lambda>x t. max 0 (min 1 (x / t)) :: rat"
  have sa: "calculateGemScore a c =
      Fin (of_int \<lfloor>(?n v vt * (3 / 10) + ?n l lt * (25 / 100) + ?n (\<bar>p\<bar>) pt * (25 / 100)
              + (1 - ?n m mt) * (2 / 10)) * 100 + 1 / 2\<rfloor>)"
    using assms by (intro gem_score_finite) auto
  have sb: "calculateGemScore b c =
      Fin (of_int \<lfloor>(?n v' vt * (3 / 10) + ?n l' lt * (25 / 100) + ?n (\<bar>p'\<bar>) pt * (25 / 100)
              + (1 - ?n m mt) * (2 / 10)) * 100 + 1 / 2\<rfloor>)"
    using assms by (intro gem_score_finite) auto
  have 1: "?n v vt \<le> ?n v' vt" using assms by (intro clamp_mono) auto
  have 2: "?n l lt \<le> ?n l' lt" using assms by (intro clamp_mono) auto
  have 3: "?n (\<bar>p\<bar>) pt \<le> ?n (\<bar>p'\<bar>) pt" using assms by (intro clamp_mono) auto
  have "(?n v vt * (3 / 10) + ?n l lt * (25 / 100) + ?n (\<bar>p\<bar>) pt * (25 / 100)
              + (1 - ?n m mt) * (2 / 10)) * 100 + 1 / 2
        \<le> (?n v' vt * (3 / 10) + ?n l' lt * (25 / 100) + ?n (\<bar>p'\<bar>) pt * (25 / 100)
              + (1 - ?n m mt) * (2 / 10)) * 100 + 1 / 2"
    using 1 2 3 by (rule weighted_sum_mono)
  then have "\<lfloor>(?n v vt * (3 / 10) + ?n l lt * (25 / 100) + ?n (\<bar>p\<bar>) pt * (25 / 100)
              + (1 - ?n m mt) * (2 / 10)) * 100 + 1 / 2\<rfloor>
        \<le> \<lfloor>(?n v' vt * (3 / 10) + ?n l' lt * (25 / 100) + ?n (\<bar>p'\<bar>) pt * (25 / 100)
              + (1 - ?n m mt) * (2 / 10)) * 100 + 1 / 2\<rfloor>"
    by (rule floor_mono)
  then show ?thesis
    unfolding sa sb by (simp only: js_le.simps of_int_le_iff)
qed

theorem gem_score_monotone_witness:
  "volumeThreshold criteria_example = Fin 20000 \<and> (0::rat) < 20000 \<and>
   liquidityThreshold criteria_example = Fin 250000 \<and> (0::rat) < 250000 \<and>
   priceSurgeThreshold criteria_example = Fin 50 \<and> (0::rat) < 50 \<and>
   maxMarketCap criteria_example = Fin 50000000 \<and> (0::rat) < 50000000 \<and>
   volume24hUSD token_low = Fin 10000 \<and> volume24hUSD token_high = Fin 15000 \<and>
   (10000::rat) \<le> 15000 \<and>
   liquidityUSD token_low = Fin 100000 \<and> liquidityUSD token_high = Fin 200000 \<and>
   (100000::rat) \<le> 200000 \<and>
   priceChange24h_percent token_low = Fin (- 20) \<and> priceChange24h_percent token_high = Fin 30 \<and>
   \<bar>- 20 :: rat\<bar> \<le> \<bar>30\<bar> \<and>
   marketCap token_low = Fin 1000000 \<and> marketCap token_high = Fin 1000000 \<and>
   js_le (calculateGemScore token_low criteria_example)
         (calculateGemScore token_high criteria_example)"
proof -
  have c: "volumeThreshold criteria_example = Fin 20000"
    "liquidityThreshold criteria_example = Fin 250000"
    "priceSurgeThreshold criteria_example = Fin 50"
    "maxMarketCap criteria_example = Fin 50000000"
    by (simp_all add: criteria_example_def)
  have t: "volume24hUSD token_low = Fin 10000" "volume24hUSD token_high = Fin 15000"
    "liquidityUSD token_low = Fin 100000" "liquidityUSD token_high = Fin 200000"
    "priceChange24h_percent token_low = Fin (- 20)" "priceChange24h_percent token_high = Fin 30"
    "marketCap token_low = Fin 1000000" "marketCap token_high = Fin 1000000"
    by (simp_all add: token_low_def token_high_def)
  have "js_le (calculateGemScore token_low criteria_example)
              (calculateGemScore token_high criteria_example)"
    by (rule gem_score_monotone [OF c(1) _ c(2) _ c(3) _ c(4) _ t(1) t(2) _ t(3) t(4) _ t(5) t(6) _
          t(7) t(8)]) simp_all
  with c t show ?thesis by simp
qed

text \<open>
  With a volume threshold of zero, which is a non-negative threshold, a token without
  volume is normalised through \<open>0 / 0\<close>: its score is \<open>NaN\<close> and compares with nothing,
  while the same token with some volume scores 70.
\<close>

theorem gem_score_zero_threshold_counterexample:
  "js_le (Fin 0) (volumeThreshold criteria_zero_volume) \<and>
   js_le (volume24hUSD token_no_volume) (volume24hUSD token_low) \<and>
   calculateGemScore token_no_volume criteria_zero_volume = NaN \<and>
   calculateGemScore token_low criteria_zero_volume = Fin 70 \<and>
   \<not> js_le (calculateGemScore token_no_volume criteria_zero_volume)
            (calculateGemScore token_low criteria_zero_volume)"
proof -
  have fl: "\<lfloor>701 / 10 :: rat\<rfloor> = 70"
    by (rule floor_unique) simp_all
  show ?thesis
    by (simp add: calculateGemScore_def normalize_def js_sub_def Math_max_def Math_min_def
        criteria_zero_volume_def criteria_example_def token_no_volume_def token_low_def Let_def fl)
qed

subsection \<open>Holder distribution trend\<close>

lemma trend_agrees_without_null:
  assumes "unique_wallet_30m_change_percent td = Some b1"
    and "unique_wallet_1h_change_percent td = Some b2"
    and "unique_wallet_2h_change_percent td = Some b3"
    and "unique_wallet_4h_change_percent td = Some b4"
    and "unique_wallet_8h_change_percent td = Some b5"
    and "unique_wallet_24h_change_percent td = Some b6"
  shows "analyzeHolderDistribution (Some td) = holderDistributionTrend_spec td"
  using assms
  by (simp add: analyzeHolderDistribution_def holderDistributionTrend_spec_def nullish_def
      List.map_filter_simps Let_def)

lemma trend_without_trade_data: "analyzeHolderDistribution None = ''stable''"
  by (simp add: analyzeHolderDistribution_def nullish_def js_gt_def Let_def)

text \<open>
  Claim C3, at the failing input. Four buckets hold a change of 15 percent and the 8h and
  24h buckets are \<open>null\<close>. The code counts the two \<open>null\<close> buckets as zeros: the average
  is 60 / 6 = 10 and the trend is \<open>stable\<close>. With the \<open>null\<close> buckets left out, as the
  claim has it, the average is 60 / 4 = 15 and the trend is \<open>increasing\<close>.
\<close>

theorem holder_trend_counts_null_buckets:
  "analyzeHolderDistribution (Some short_history) = ''stable'' \<and>
   holderDistributionTrend_spec short_history = ''increasing''"
  by (simp add: analyzeHolderDistribution_def holderDistributionTrend_spec_def short_history_def
      nullish_def List.map_filter_simps js_gt_def Let_def)

subsection \<open>Suspicious volume\<close>

lemma suspiciousVolume_of_defaults: "suspiciousVolume (all_defaults this) = Inr False"
  by (simp add: suspiciousVolume_def all_defaults_def getDefaultTradeData_def js_gt_def)

text \<open>
  Claim C2, at the failing input. With 50 unique wallets and a 24h volume of zero the
  quotient is \<open>Infinity\<close>, which is greater than 0.5: the function returns \<open>true\<close>.
\<close>

theorem suspiciousVolume_zero_volume:
  "volume_24h short_history = Fin 0 \<and> unique_wallet_24h short_history = Fin 50 \<and>
   suspiciousVolume short_history_snapshot = Inr True"
  by (simp add: suspiciousVolume_def short_history_snapshot_def short_history_def js_gt_def)

subsection \<open>Trust score\<close>

text \<open>
  Claim C9. \<open>calculateTrustScore\<close> and \<open>calculateOverallRiskScore\<close> are the same
  function, and the record that \<open>updateRecommenderMetrics\<close> writes has equal
  \<open>trustScore\<close> and \<open>riskScore\<close> fields.
\<close>

theorem trust_score_is_overall_risk_score:
  "calculateTrustScore = calculateOverallRiskScore \<and>
   calculateTrustScore tp rm =
     js_div (js_add (calculateRiskScore tp) (calculateConsistencyScore tp rm)) (Fin 2) \<and>
   trustScore (updateRecommenderMetrics rid tp rm bal now d2 d3) =
     riskScore (updateRecommenderMetrics rid tp rm bal now d2 d3)"
  by (simp add: fun_eq_iff calculateTrustScore_def calculateOverallRiskScore_def
      updateRecommenderMetrics_def Let_def)

lemma decay_general:
  "trustDecay (updateRecommenderMetrics rid tp rm bal now d2 d3) =
     js_mul (trustScore rm)
       (Fin ((95 / 100) powi (min ((now - lastActiveDate rm) div 86400000) 30)))"
  by (simp add: updateRecommenderMetrics_def inactiveDays_def DECAY_RATE_def MAX_DECAY_DAYS_def
      Let_def)

lemma decay_general_generate:
  "trustDecay (generateTrustScore_metrics rid rm bal now d2) =
     js_mul (trustScore rm)
       (Fin ((95 / 100) powi (min ((now - lastActiveDate rm) div 86400000) 30)))"
  by (simp add: generateTrustScore_metrics_def inactiveDays_def DECAY_RATE_def MAX_DECAY_DAYS_def
      Let_def)

lemma decay_exponent_forty: "min ((40 * 86400000 - 0) div 86400000) (30 :: int) = int 30"
  by simp

lemma decay_exponent_five: "min ((5 * 86400000 - 0) div 86400000) (30 :: int) = int 5"
  by simp

lemma decay_powers_differ: "(80 :: rat) * (95 / 100) ^ 30 \<noteq> 80 * (95 / 100) ^ 40"
proof
  assume "(80 :: rat) * (95 / 100) ^ 30 = 80 * (95 / 100) ^ 40"
  then have eq: "((95 / 100) :: rat) ^ 30 = (95 / 100) ^ 40"
    by (simp only: mult_cancel_left) simp
  have "((95 / 100) :: rat) ^ 40 < (95 / 100) ^ 30"
    by (rule power_strict_decreasing) simp_all
  with eq show False by (simp only: less_irrefl)
qed

lemma decay_of_80_after_40_days:
  "trustDecay (updateRecommenderMetrics rid tp
                 (rm\<lparr>trustScore := Fin 80, lastActiveDate := 0\<rparr>) bal (40 * 86400000) d2 d3) =
     Fin (80 * (95 / 100) ^ 30)"
proof -
  let ?rm = "rm\<lparr>trustScore := Fin 80, lastActiveDate := 0\<rparr>"
  have s: "trustScore ?rm = Fin 80" and l: "lastActiveDate ?rm = 0" by simp_all
  have "trustDecay (updateRecommenderMetrics rid tp ?rm bal (40 * 86400000) d2 d3) =
        js_mul (trustScore ?rm)
          (Fin ((95 / 100) powi (min ((40 * 86400000 - lastActiveDate ?rm) div 86400000) 30)))"
    by (rule decay_general)
  also have "\<dots> = js_mul (Fin 80) (Fin ((95 / 100) powi int 30))"
    by (simp only: s l decay_exponent_forty)
  also have "\<dots> = js_mul (Fin 80) (Fin ((95 / 100) ^ 30))"
    by (simp only: power_int_of_nat)
  also have "\<dots> = Fin (80 * (95 / 100) ^ 30)"
    by (simp only: js_mul.simps)
  finally show ?thesis .
qed

lemma decay_of_80_after_5_days:
  "trustDecay (updateRecommenderMetrics rid tp
                 (rm\<lparr>trustScore := Fin 80, lastActiveDate := 0\<rparr>) bal (5 * 86400000) d2 d3) =
     Fin (80 * (95 / 100) ^ 5)"
proof -
  let ?rm = "rm\<lparr>trustScore := Fin 80, lastActiveDate := 0\<rparr>"
  have s: "trustScore ?rm = Fin 80" and l: "lastActiveDate ?rm = 0" by simp_all
  have "trustDecay (updateRecommenderMetrics rid tp ?rm bal (5 * 86400000) d2 d3) =
        js_mul (trustScore ?rm)
          (Fin ((95 / 100) powi (min ((5 * 86400000 - lastActiveDate ?rm) div 86400000) 30)))"
    by (rule decay_general)
  also have "\<dots> = js_mul (Fin 80) (Fin ((95 / 100) powi int 5))"
    by (simp only: s l decay_exponent_five)
  also have "\<dots> = js_mul (Fin 80) (Fin ((95 / 100) ^ 5))"
    by (simp only: power_int_of_nat)
  also have "\<dots> = Fin (80 * (95 / 100) ^ 5)"
    by (simp only: js_mul.simps)
  finally show ?thesis .
qed

text \<open>
  Claim C7. The decayed score written by \<open>updateRecommenderMetrics\<close> and by
  \<open>generateTrustScore\<close> is the previous trust score times \<open>0.95\<close> to the power of the
  whole days between the last activity and now, capped at 30. A score of 80 after 40
  inactive days decays to \<open>80 * 0.95 ^ 30\<close>, which differs from \<open>80 * 0.95 ^ 40\<close>;
  after 5 inactive days it decays to \<open>80 * 0.95 ^ 5\<close>.
\<close>

theorem trust_decay_capped_at_30_days:
  "trustDecay (updateRecommenderMetrics rid tp rm bal now d2 d3) =
     js_mul (trustScore rm)
       (Fin ((95 / 100) powi (min ((now - lastActiveDate rm) div 86400000) 30))) \<and>
   trustDecay (generateTrustScore_metrics rid rm bal now d2) =
     js_mul (trustScore rm)
       (Fin ((95 / 100) powi (min ((now - lastActiveDate rm) div 86400000) 30))) \<and>
   trustDecay (updateRecommenderMetrics rid tp
                 (rm\<lparr>trustScore := Fin 80, lastActiveDate := 0\<rparr>) bal (40 * 86400000) d2 d3) =
     Fin (80 * (95 / 100) ^ 30) \<and>
   trustDecay (updateRecommenderMetrics rid tp
                 (rm\<lparr>trustScore := Fin 80, lastActiveDate := 0\<rparr>) bal (40 * 86400000) d2 d3) \<noteq>
     Fin (80 * (95 / 100) ^ 40) \<and>
   trustDecay (updateRecommenderMetrics rid tp
                 (rm\<lparr>trustScore := Fin 80, lastActiveDate := 0\<rparr>) bal (5 * 86400000) d2 d3) =
     Fin (80 * (95 / 100) ^ 5)"
proof (intro conjI)
  show "trustDecay (updateRecommenderMetrics rid tp
                 (rm\<lparr>trustScore := Fin 80, lastActiveDate := 0\<rparr>) bal (40 * 86400000) d2 d3) \<noteq>
     Fin (80 * (95 / 100) ^ 40)"
    unfolding decay_of_80_after_40_days using decay_powers_differ
    by (simp only: jsnum.inject not_False_eq_True)
qed (rule decay_general decay_general_generate decay_of_80_after_40_days decay_of_80_after_5_days)+

section \<open>Properties of the highest-liquidity pair\<close>

text \<open>
  On complete pairs the comparison function returns a finite number, and that number is
  at most zero exactly when its first argument may stay before the second.
\<close>

lemma finite_pair_fields:
  assumes "finite_pair p"
  obtains l m where "liquidity_usd p = Some (Fin l)" "pair_marketCap p = Fin m"
  using assms
  by (auto simp: finite_pair_def split: option.splits jsnum.splits)

lemma liquidityCompare_finite:
  assumes "finite_pair x" "finite_pair y"
  shows "\<exists>r. liquidityCompare x y = Inr (Fin r) \<and> (r \<le> 0 \<longleftrightarrow> liquidity_desc x y)"
proof -
  from assms(1) obtain lx mx where x: "liquidity_usd x = Some (Fin lx)" "pair_marketCap x = Fin mx"
    by (rule finite_pair_fields)
  from assms(2) obtain ly my where y: "liquidity_usd y = Some (Fin ly)" "pair_marketCap y = Fin my"
    by (rule finite_pair_fields)
  show ?thesis
    using x y
    by (auto simp: liquidityCompare_def liquidity_desc_def js_sub_def js_gt_def Let_def)
qed

lemma liquidity_desc_total:
  assumes "finite_pair x" "finite_pair y" "\<not> liquidity_desc x y"
  shows "liquidity_desc y x"
proof -
  from assms(1) obtain lx mx where x: "liquidity_usd x = Some (Fin lx)" "pair_marketCap x = Fin mx"
    by (rule finite_pair_fields)
  from assms(2) obtain ly my where y: "liquidity_usd y = Some (Fin ly)" "pair_marketCap y = Fin my"
    by (rule finite_pair_fields)
  show ?thesis
    using x y assms(3) by (auto simp: liquidity_desc_def js_gt_def)
qed

lemma liquidity_desc_trans:
  assumes "finite_pair x" "finite_pair y" "finite_pair z"
    and "liquidity_desc x y" "liquidity_desc y z"
  shows "liquidity_desc x z"
proof -
  from assms(1) obtain lx mx where x: "liquidity_usd x = Some (Fin lx)" "pair_marketCap x = Fin mx"
    by (rule finite_pair_fields)
  from assms(2) obtain ly my where y: "liquidity_usd y = Some (Fin ly)" "pair_marketCap y = Fin my"
    by (rule finite_pair_fields)
  from assms(3) obtain lz mz where z: "liquidity_usd z = Some (Fin lz)" "pair_marketCap z = Fin mz"
    by (rule finite_pair_fields)
  show ?thesis
    using x y z assms(4,5) by (auto simp: liquidity_desc_def js_gt_def)
qed

lemma insert_by_finite:
  assumes "finite_pair x" "list_all finite_pair xs" "sorted_wrt liquidity_desc xs"
  shows "\<exists>ys. insert_by liquidityCompare x xs = Inr ys \<and> mset ys = add_mset x (mset xs) \<and>
              sorted_wrt liquidity_desc ys"
  using assms(2,3)
proof (induction xs)
  case Nil
  then show ?case by simp
next
  case (Cons y ys)
  then have fy: "finite_pair y" and fys: "list_all finite_pair ys"
    and sys: "sorted_wrt liquidity_desc ys" and yall: "\<forall>z\<in>set ys. liquidity_desc y z"
    by simp_all
  from liquidityCompare_finite [OF assms(1) fy]
  obtain r where r: "liquidityCompare x y = Inr (Fin r)" "r \<le> 0 \<longleftrightarrow> liquidity_desc x y"
    by blast
  show ?case
  proof (cases "r \<le> 0")
    case True
    with r have xy: "liquidity_desc x y" by simp
    have "\<forall>z\<in>set ys. liquidity_desc x z"
    proof
      fix z assume z: "z \<in> set ys"
      with fys have "finite_pair z" by (simp add: list_all_iff)
      with xy yall z show "liquidity_desc x z"
        using liquidity_desc_trans [OF assms(1) fy] by blast
    qed
    with True r xy Cons.prems show ?thesis
      by (simp add: js_gt_def)
  next
    case False
    with r have yx: "liquidity_desc y x"
      using liquidity_desc_total [OF assms(1) fy] by blast
    from Cons.IH [OF fys sys]
    obtain zs where zs: "insert_by liquidityCompare x ys = Inr zs"
      "mset zs = add_mset x (mset ys)" "sorted_wrt liquidity_desc zs"
      by blast
    from zs(2) have "set zs = insert x (set ys)"
      by (metis set_mset_add_mset_insert set_mset_mset)
    with yx yall have "\<forall>z\<in>set zs. liquidity_desc y z" by simp
    with False r zs show ?thesis
      by (simp add: js_gt_def)
  qed
qed

lemma array_sort_finite:
  assumes "list_all finite_pair xs"
  shows "\<exists>ys. array_sort liquidityCompare xs = Inr ys \<and> mset ys = mset xs \<and>
              sorted_wrt liquidity_desc ys"
  using assms
proof (induction xs)
  case Nil
  then show ?case by simp
next
  case (Cons x xs)
  then have fx: "finite_pair x" and fxs: "list_all finite_pair xs" by simp_all
  from Cons.IH [OF fxs]
  obtain ys where ys: "array_sort liquidityCompare xs = Inr ys" "mset ys = mset xs"
    "sorted_wrt liquidity_desc ys"
    by blast
  from ys(2) have "set ys = set xs" by (metis set_mset_mset)
  with fxs have "list_all finite_pair ys" by (simp add: list_all_iff)
  from insert_by_finite [OF fx this ys(3)]
  obtain zs where "insert_by liquidityCompare x ys = Inr zs" "mset zs = add_mset x (mset ys)"
    "sorted_wrt liquidity_desc zs"
    by blast
  with ys show ?case by simp
qed

lemma highest_pair_example:
  "getHighestLiquidityPair three_pairs =
     (Inr (Some (pair_with (Some (Fin 30)) (Fin 7))),
      \<lparr> schemaVersion = ''1.0.0'',
        pairs = [pair_with (Some (Fin 30)) (Fin 7), pair_with (Some (Fin 30)) (Fin 1),
                 pair_with (Some (Fin 10)) (Fin 5)] \<rparr>)"
  by (simp add: getHighestLiquidityPair_def three_pairs_def pair_with_def liquidityCompare_def
      js_sub_def js_gt_def Let_def)

text \<open>
  Claim C10, amended. When every pair of the list has a liquidity object with a finite
  \<open>usd\<close> value and a finite market cap, \<open>getHighestLiquidityPair\<close> on a non-empty list
  leaves the caller's array holding the same pairs reordered by liquidity descending,
  ties by market cap descending, and returns the first element of the reordered array;
  on an empty list it returns \<open>null\<close> and leaves the data as it was.
\<close>

theorem getHighestLiquidityPair_sorts_finite_pairs:
  assumes "list_all finite_pair (pairs d)"
  shows "(pairs d \<noteq> [] \<longrightarrow>
            (\<exists>p ps. pairs (snd (getHighestLiquidityPair d)) = p # ps \<and>
                    fst (getHighestLiquidityPair d) = Inr (Some p)) \<and>
            sorted_wrt liquidity_desc (pairs (snd (getHighestLiquidityPair d))) \<and>
            mset (pairs (snd (getHighestLiquidityPair d))) = mset (pairs d) \<and>
            schemaVersion (snd (getHighestLiquidityPair d)) = schemaVersion d) \<and>
         (pairs d = [] \<longrightarrow> getHighestLiquidityPair d = (Inr None, d))"
proof -
  from array_sort_finite [OF assms]
  obtain ys where ys: "array_sort liquidityCompare (pairs d) = Inr ys" "mset ys = mset (pairs d)"
    "sorted_wrt liquidity_desc ys"
    by blast
  have "ys \<noteq> []" if "pairs d \<noteq> []"
    using that ys(2) by (metis mset_zero_iff)
  with ys show ?thesis
    by (auto simp: getHighestLiquidityPair_def split: list.splits)
qed

theorem getHighestLiquidityPair_sorts_finite_pairs_witness:
  "list_all finite_pair (pairs three_pairs) \<and> pairs three_pairs \<noteq> [] \<and>
   (\<exists>p ps. pairs (snd (getHighestLiquidityPair three_pairs)) = p # ps \<and>
           fst (getHighestLiquidityPair three_pairs) = Inr (Some p)) \<and>
   sorted_wrt liquidity_desc (pairs (snd (getHighestLiquidityPair three_pairs))) \<and>
   mset (pairs (snd (getHighestLiquidityPair three_pairs))) = mset (pairs three_pairs) \<and>
   list_all finite_pair (pairs noPairs) \<and> pairs noPairs = [] \<and>
   getHighestLiquidityPair noPairs = (Inr None, noPairs)"
proof -
  have f: "list_all finite_pair (pairs three_pairs)"
    by (simp add: three_pairs_def finite_pair_def)
  have ne: "pairs three_pairs \<noteq> []" by (simp add: three_pairs_def)
  have g: "list_all finite_pair (pairs noPairs)" and em: "pairs noPairs = []"
    by (simp_all add: noPairs_def)
  from f ne g em getHighestLiquidityPair_sorts_finite_pairs [OF f]
    getHighestLiquidityPair_sorts_finite_pairs [OF g]
  show ?thesis by blast
qed

text \<open>
  Two payloads on which the claim as first stated fails. A pair whose \<open>liquidity\<close> has
  no \<open>usd\<close> field compares as \<open>NaN\<close> with its neighbours, the sort reads that as
  equality, and the array stays as it was: the pair with liquidity 5 is returned and
  stands before the pair with liquidity 10. A pair without a \<open>liquidity\<close> object makes
  the comparison function throw, and the call ends in a \<open>TypeError\<close>.
\<close>

theorem getHighestLiquidityPair_incomplete_pairs_counterexample:
  "pairs missing_usd \<noteq> [] \<and>
   getHighestLiquidityPair missing_usd =
     (Inr (Some (pair_with (Some (Fin 5)) (Fin 1))), missing_usd) \<and>
   \<not> sorted_wrt liquidity_desc (pairs (snd (getHighestLiquidityPair missing_usd))) \<and>
   pairs missing_liquidity \<noteq> [] \<and>
   getHighestLiquidityPair missing_liquidity =
     (Inl (TypeError ''Cannot read properties of undefined (reading usd)''), missing_liquidity)"
  by (simp add: getHighestLiquidityPair_def missing_usd_def missing_liquidity_def pair_with_def
      liquidityCompare_def liquidity_desc_def js_sub_def js_gt_def Let_def)

section \<open>Properties of the token provider\<close>

subsection \<open>The aggregator returns\<close>

lemma returns_ret: "returns (ret v)"
  by (simp add: returns_def ret_def)

lemma returns_bnd:
  assumes "returns m" and "\<And>v. returns (f v)"
  shows "returns (bnd m f)"
proof (unfold returns_def, rule allI)
  fix w
  from assms(1) obtain v w1 where m: "m w = (Inr v, w1)"
    unfolding returns_def by blast
  from assms(2) obtain u w2 where "f v w1 = (Inr u, w2)"
    unfolding returns_def by blast
  with m show "\<exists>u w'. bnd m f w = (Inr u, w')"
    by (simp add: bnd_def)
qed

lemma returns_handled:
  assumes "\<And>err. returns (h err)"
  shows "returns (try_catch m h)"
proof (unfold returns_def, rule allI)
  fix w
  obtain r w1 where m: "m w = (r, w1)" by (cases "m w")
  show "\<exists>v w'. try_catch m h w = (Inr v, w')"
  proof (cases r)
    case (Inl err)
    from assms obtain v w2 where "h err w1 = (Inr v, w2)"
      unfolding returns_def by blast
    with m Inl show ?thesis by (simp add: try_catch_def)
  next
    case (Inr v)
    with m show ?thesis by (simp add: try_catch_def)
  qed
qed

lemma returns_guarded:
  assumes "returns m"
  shows "returns (try_catch m h)"
proof (unfold returns_def, rule allI)
  fix w
  from assms obtain v w1 where "m w = (Inr v, w1)"
    unfolding returns_def by blast
  then show "\<exists>v w'. try_catch m h w = (Inr v, w')"
    by (simp add: try_catch_def)
qed

lemma returns_getCachedData: "returns (getCachedData e sel upd k)"
  unfolding getCachedData_def by (rule returns_handled) (rule returns_ret)

lemma returns_setCachedData: "returns (setCachedData e upd k v)"
  unfolding setCachedData_def by (rule returns_handled) (rule returns_ret)

lemma returns_fetchHolderList: "returns (fetchHolderList e this)"
  unfolding fetchHolderList_def Let_def
  by (intro returns_bnd returns_getCachedData)
     (auto split: option.splits intro!: returns_ret returns_handled)

lemma returns_fetchDexScreenerData: "returns (fetchDexScreenerData e this)"
  unfolding fetchDexScreenerData_def Let_def
  by (intro returns_bnd returns_getCachedData)
     (auto split: option.splits intro!: returns_ret returns_handled)

lemma returns_fetchTokenSecurity:
  assumes "tokenAddress this = Some a"
  shows "returns (fetchTokenSecurity e this)"
  unfolding fetchTokenSecurity_def Let_def using assms
  by (auto split: option.splits intro!: returns_bnd returns_getCachedData returns_ret returns_handled)

lemma returns_filterHighValueHolders: "returns (filterHighValueHolders e this trade)"
  unfolding filterHighValueHolders_def by (rule returns_handled) (rule returns_ret)

lemma returns_checkRecentTrades: "returns (checkRecentTrades e trade)"
  unfolding checkRecentTrades_def
  by (auto split: option.splits intro!: returns_ret returns_handled)

lemma returns_countHighSupplyHolders: "returns (countHighSupplyHolders e this sd)"
  unfolding countHighSupplyHolders_def by (rule returns_handled) (rule returns_ret)

lemma returns_getProcessedTokenData:
  assumes "tokenAddress this = Some a"
  shows "returns (getProcessedTokenData e runtime this)"
  unfolding getProcessedTokenData_def
  by (intro returns_guarded returns_bnd returns_fetchTokenSecurity [OF assms]
        returns_handled returns_ret returns_filterHighValueHolders
        returns_checkRecentTrades returns_countHighSupplyHolders)

text \<open>
  Claim C1. For a provider that holds a token address, \<open>getProcessedTokenData\<close> returns
  a \<open>ProcessedTokenData\<close> value and does not throw, whatever the five sources, the cache
  store and the runtime settings answer.
\<close>

theorem getProcessedTokenData_total:
  assumes "tokenAddress this \<noteq> None"
  shows "\<exists>pd w'. getProcessedTokenData e runtime this w = (Inr pd, w')"
proof -
  from assms obtain a where "tokenAddress this = Some a" by auto
  then have "returns (getProcessedTokenData e runtime this)"
    by (rule returns_getProcessedTokenData)
  then show ?thesis unfolding returns_def by blast
qed

theorem getProcessedTokenData_total_witness:
  "tokenAddress sol \<noteq> None \<and>
   (\<exists>pd w'. getProcessedTokenData offline (Some keyed) sol fresh = (Inr pd, w'))"
proof -
  have a: "tokenAddress sol \<noteq> None" by (simp add: sol_def)
  from a getProcessedTokenData_total [OF a, of offline "Some keyed" fresh]
  show ?thesis by blast
qed

subsection \<open>Failing sources\<close>

















subsection \<open>Holder list\<close>

text \<open>
  Claim C5, amended. When neither tier holds a holder list for the token, the adapter
  asks the ledger. If the answer yields at least one valid holder, the list is returned
  and written to the in-process tier and, unless the store fails, to the durable tier.
  If the list is empty, because the request failed, because the answer has no array, or
  because the answer is a successful empty one, the adapter returns the empty list and
  writes nothing.
\<close>

theorem holder_list_cached_when_nonempty:
  assumes "mem (holderCache w) (''holderList_'' @ address_text this) = None"
    and "durable (holderCache w) (path_join cacheKey (''holderList_'' @ address_text this)) = None"
  shows "fetchHolderList e this w =
     (let key = ''holderList_'' @ address_text this;
          holders =
            (case helius_http e (Suc (tick w)) of
               Response ok (Body b) \<Rightarrow>
                 (case helius_value b of None \<Rightarrow> [] | Some accounts \<Rightarrow> holders_of accounts)
             | _ \<Rightarrow> [])
      in if holders = [] then (Inr [], w\<lparr>tick := tick w + 2\<rparr>)
         else (Inr holders,
               w\<lparr>tick := tick w + 3,
                 holderCache :=
                   \<lparr> mem = (mem (holderCache w))(key \<mapsto> holders),
                     durable =
                       (if store_set_throws e (tick w + 2) then durable (holderCache w)
                        else (durable (holderCache w))(path_join cacheKey key \<mapsto> holders)) \<rparr>\<rparr>))"
  using assms
  by (cases "helius_http e (Suc (tick w))")
     (auto simp: fetchHolderList_def io_defs Let_def split: parsed.splits option.splits)

theorem holder_list_cached_when_nonempty_witness:
  "mem (holderCache fresh) (''holderList_'' @ address_text sol) = None \<and>
   durable (holderCache fresh) (path_join cacheKey (''holderList_'' @ address_text sol)) = None \<and>
   fetchHolderList one_holder sol fresh =
     (Inr [\<lparr> address = ''H1'', balance = ''100'' \<rparr>],
      fresh\<lparr> tick := 3,
             holderCache :=
               \<lparr> mem = [''holderList_So11'' \<mapsto> [\<lparr> address = ''H1'', balance = ''100'' \<rparr>]],
                 durable = [''solana/tokens/holderList_So11'' \<mapsto>
                              [\<lparr> address = ''H1'', balance = ''100'' \<rparr>]] \<rparr> \<rparr>)"
proof -
  have h: "mem (holderCache fresh) (''holderList_'' @ address_text sol) = None"
    "durable (holderCache fresh) (path_join cacheKey (''holderList_'' @ address_text sol)) = None"
    by (simp_all add: input_defs)
  from holder_list_cached_when_nonempty [OF h, of one_holder]
  have "fetchHolderList one_holder sol fresh =
     (Inr [\<lparr> address = ''H1'', balance = ''100'' \<rparr>],
      fresh\<lparr> tick := 3,
             holderCache :=
               \<lparr> mem = [''holderList_So11'' \<mapsto> [\<lparr> address = ''H1'', balance = ''100'' \<rparr>]],
                 durable = [''solana/tokens/holderList_So11'' \<mapsto>
                              [\<lparr> address = ''H1'', balance = ''100'' \<rparr>]] \<rparr> \<rparr>)"
    by (simp add: input_defs holders_of_def List.map_filter_simps address_text_def
        path_join_def cacheKey_def Let_def)
  with h show ?thesis by blast
qed

text \<open>
  A successful answer of the ledger with an empty list of accounts: the adapter returns
  the empty list and both tiers stay without an entry for the token.
\<close>

theorem empty_holder_list_not_cached_counterexample:
  "helius_http no_holders 1 = Response True (Body \<lparr> helius_value = Some [] \<rparr>) \<and>
   fetchHolderList no_holders sol fresh = (Inr [], fresh\<lparr>tick := 2\<rparr>) \<and>
   mem (holderCache (snd (fetchHolderList no_holders sol fresh))) ''holderList_So11'' = None \<and>
   durable (holderCache (snd (fetchHolderList no_holders sol fresh)))
     ''solana/tokens/holderList_So11'' = None"
  by (simp add: fetchHolderList_def holders_of_def List.map_filter_simps address_text_def
      path_join_def cacheKey_def io_defs input_defs Let_def)

subsection \<open>Construction\<close>

text \<open>
  Claim C6, amended. For a non-empty identifier that fails normalization the constructor
  returns a provider whose token address is \<open>null\<close>; no error reaches the caller of the
  constructor. The failure shows when the provider is used: \<open>getProcessedTokenData\<close>
  throws a \<open>TypeError\<close> before it touches the world.
\<close>

theorem malformed_address_becomes_null:
  assumes "a \<noteq> []" "normalizeAddress a = Inl err"
  shows "TokenProvider_new normalizeAddress (Some a) = Inr \<lparr>tokenAddress = None\<rparr> \<and>
         getProcessedTokenData e runtime \<lparr>tokenAddress = None\<rparr> w =
           (Inl (TypeError ''Cannot read properties of null (reading toLowerCase)''), w)"
  using assms
  by (simp add: TokenProvider_new_def getProcessedTokenData_def fetchTokenSecurity_def
      bnd_def try_catch_def throw_def)

theorem malformed_address_becomes_null_witness:
  "''not-an-address'' \<noteq> [] \<and>
   reject_address ''not-an-address'' = Inl (Error ''Invalid address'') \<and>
   TokenProvider_new reject_address (Some ''not-an-address'') = Inr \<lparr>tokenAddress = None\<rparr> \<and>
   getProcessedTokenData offline (Some keyed) \<lparr>tokenAddress = None\<rparr> fresh =
     (Inl (TypeError ''Cannot read properties of null (reading toLowerCase)''), fresh)"
proof -
  have h: "''not-an-address'' \<noteq> []"
    "reject_address ''not-an-address'' = Inl (Error ''Invalid address'')"
    by (simp_all add: reject_address_def)
  from h malformed_address_becomes_null
    [where a = "''not-an-address''" and normalizeAddress = reject_address
       and e = offline and runtime = "Some keyed" and w = fresh, OF h]
  show ?thesis by blast
qed

text \<open>
  Construction from an identifier that \<open>normalizeAddress\<close> rejects returns a provider;
  it does not end in an error.
\<close>

theorem constructor_swallows_malformed_counterexample:
  "TokenProvider_new reject_address (Some ''not-an-address'') = Inr \<lparr>tokenAddress = None\<rparr>"
  by (simp add: TokenProvider_new_def reject_address_def)

end
